theory Spec2Isabelle
  imports Complex_Main
begin

section \<open>Two-dimensional arrays\<close>

text \<open>
  The notebook \<^verbatim>\<open>three_layer_dnn.ipynb\<close> computes on two-dimensional NumPy arrays.
  An array is modelled by its shape and its rows. Floating-point numbers are idealised
  as real numbers: rounding, overflow to infinity and NaN are outside the model, so
  statements about values are read up to floating-point rounding, and a division by a
  zero sample count or a logarithm of a non-positive number (which NumPy answers with a
  non-finite value and a warning, not an exception) is only meaningful under the
  hypotheses that exclude it.

  The only exception the array operations of the notebook raise on two-dimensional
  arguments is \<^verbatim>\<open>ValueError\<close>: shapes that cannot be multiplied or broadcast, and
  a negative dimension given to an array constructor.
\<close>

datatype error = ValueError

record 'a ndarray =
  shape0 :: nat
  shape1 :: nat
  rows :: "'a list list"

definition bindE :: "error + 'a \<Rightarrow> ('a \<Rightarrow> error + 'b) \<Rightarrow> error + 'b" where
  "bindE r f = (case r of Inl e \<Rightarrow> Inl e | Inr v \<Rightarrow> f v)"

definition mk :: "nat \<Rightarrow> nat \<Rightarrow> (nat \<Rightarrow> nat \<Rightarrow> 'a) \<Rightarrow> 'a ndarray" where
  "mk r c f = \<lparr>shape0 = r, shape1 = c, rows = map (\<lambda>i. map (f i) [0..<c]) [0..<r]\<rparr>"

definition entry :: "'a ndarray \<Rightarrow> nat \<Rightarrow> nat \<Rightarrow> 'a" where
  "entry A i j = rows A ! i ! j"

text \<open>\<^verbatim>\<open>f(A)\<close> elementwise, and an array combined with a Python scalar.\<close>

definition map_nd :: "('a \<Rightarrow> 'b) \<Rightarrow> 'a ndarray \<Rightarrow> 'b ndarray" where
  "map_nd f A = mk (shape0 A) (shape1 A) (\<lambda>i j. f (entry A i j))"

text \<open>
  NumPy broadcasting of two dimensions: equal, or one of them is 1 and is stretched;
  anything else raises \<^verbatim>\<open>ValueError\<close>.
\<close>

definition bdim :: "nat \<Rightarrow> nat \<Rightarrow> error + nat" where
  "bdim a b = (if a = b then Inr a else if a = 1 then Inr b else if b = 1 then Inr a
               else Inl ValueError)"

definition bidx :: "nat \<Rightarrow> nat \<Rightarrow> nat" where
  "bidx n i = (if n = 1 then 0 else i)"

definition broadcast2 :: "('a \<Rightarrow> 'b \<Rightarrow> 'c) \<Rightarrow> 'a ndarray \<Rightarrow> 'b ndarray \<Rightarrow> error + 'c ndarray" where
  "broadcast2 f A B =
     bindE (bdim (shape0 A) (shape0 B)) (\<lambda>r.
     bindE (bdim (shape1 A) (shape1 B)) (\<lambda>c.
     Inr (mk r c (\<lambda>i j. f (entry A (bidx (shape0 A) i) (bidx (shape1 A) j))
                            (entry B (bidx (shape0 B) i) (bidx (shape1 B) j))))))"

definition np_add :: "real ndarray \<Rightarrow> real ndarray \<Rightarrow> error + real ndarray" where
  "np_add = broadcast2 (+)"

definition np_subtract :: "real ndarray \<Rightarrow> real ndarray \<Rightarrow> error + real ndarray" where
  "np_subtract = broadcast2 (-)"

definition np_multiply :: "real ndarray \<Rightarrow> real ndarray \<Rightarrow> error + real ndarray" where
  "np_multiply = broadcast2 (*)"

text \<open>A float array times a boolean array: \<^verbatim>\<open>True\<close> counts as 1, \<^verbatim>\<open>False\<close> as 0.\<close>

definition np_multiply_bool :: "real ndarray \<Rightarrow> bool ndarray \<Rightarrow> error + real ndarray" where
  "np_multiply_bool = broadcast2 (\<lambda>x b. x * of_bool b)"

text \<open>\<^verbatim>\<open>A > 0\<close>: the boolean array of the comparison.\<close>

definition gt0 :: "real ndarray \<Rightarrow> bool ndarray" where
  "gt0 A = map_nd (\<lambda>x. 0 < x) A"

text \<open>\<^verbatim>\<open>np.dot(A, B)\<close> on two-dimensional arrays: the matrix product.\<close>

definition np_dot :: "real ndarray \<Rightarrow> real ndarray \<Rightarrow> error + real ndarray" where
  "np_dot A B =
     (if shape1 A \<noteq> shape0 B then Inl ValueError
      else Inr (mk (shape0 A) (shape1 B)
                  (\<lambda>i j. sum_list (map (\<lambda>k. entry A i k * entry B k j) [0..<shape1 A]))))"

text \<open>\<^verbatim>\<open>A.T\<close>\<close>

definition transpose_nd :: "'a ndarray \<Rightarrow> 'a ndarray" where
  "transpose_nd A = mk (shape1 A) (shape0 A) (\<lambda>i j. entry A j i)"

text \<open>\<^verbatim>\<open>np.sum(A, axis=1, keepdims=True)\<close>: one column holding the sum of each row.\<close>

definition np_sum_axis1 :: "real ndarray \<Rightarrow> real ndarray" where
  "np_sum_axis1 A = mk (shape0 A) 1 (\<lambda>i j. sum_list (map (entry A i) [0..<shape1 A]))"

text \<open>\<^verbatim>\<open>np.sum(A)\<close>: the sum of all entries, a scalar.\<close>

definition np_sum :: "real ndarray \<Rightarrow> real" where
  "np_sum A = sum_list (map (\<lambda>i. sum_list (map (entry A i) [0..<shape1 A])) [0..<shape0 A])"

definition np_log :: "real ndarray \<Rightarrow> real ndarray" where
  "np_log A = map_nd ln A"

definition np_exp :: "real ndarray \<Rightarrow> real ndarray" where
  "np_exp A = map_nd exp A"

text \<open>
  The array constructors. A negative dimension raises \<^verbatim>\<open>ValueError\<close>; a zero
  dimension is accepted and gives an empty array. \<^verbatim>\<open>np.random.randn\<close> draws from
  the global generator, modelled as the stream of the samples still to come.
\<close>

type_synonym rng = "nat \<Rightarrow> real"

definition np_zeros :: "int \<Rightarrow> int \<Rightarrow> error + real ndarray" where
  "np_zeros r c =
     (if r < 0 \<or> c < 0 then Inl ValueError else Inr (mk (nat r) (nat c) (\<lambda>i j. 0)))"

definition randn :: "int \<Rightarrow> int \<Rightarrow> rng \<Rightarrow> error + (real ndarray \<times> rng)" where
  "randn r c g =
     (if r < 0 \<or> c < 0 then Inl ValueError
      else Inr (mk (nat r) (nat c) (\<lambda>i j. g (i * nat c + j)), \<lambda>k. g (k + nat r * nat c)))"

section \<open>The network\<close>

text \<open>
  \<^verbatim>\<open>def sigmoid(z): return 1 / (1 + np.exp(-z))\<close>

  \<^verbatim>\<open>def relu(z): return np.maximum(0, z)\<close>
\<close>

definition sigmoid :: "real ndarray \<Rightarrow> real ndarray" where
  "sigmoid z = map_nd (\<lambda>x. 1 / x) (map_nd (\<lambda>x. 1 + x) (np_exp (map_nd uminus z)))"

definition relu :: "real ndarray \<Rightarrow> real ndarray" where
  "relu z = map_nd (max 0) z"

type_synonym params =
  "real ndarray \<times> real ndarray \<times> real ndarray \<times> real ndarray \<times> real ndarray \<times> real ndarray"

definition initialize_parameters_3layer ::
  "int \<Rightarrow> int \<Rightarrow> int \<Rightarrow> int \<Rightarrow> rng \<Rightarrow> error + (params \<times> rng)" where
  "initialize_parameters_3layer n_x n_h1 n_h2 n_y g =
     bindE (randn n_h1 n_x g) (\<lambda>(R1, g1).
     let W1 = map_nd (\<lambda>x. x * 0.01) R1 in
     bindE (np_zeros n_h1 1) (\<lambda>b1.
     bindE (randn n_h2 n_h1 g1) (\<lambda>(R2, g2).
     let W2 = map_nd (\<lambda>x. x * 0.01) R2 in
     bindE (np_zeros n_h2 1) (\<lambda>b2.
     bindE (randn n_y n_h2 g2) (\<lambda>(R3, g3).
     let W3 = map_nd (\<lambda>x. x * 0.01) R3 in
     bindE (np_zeros n_y 1) (\<lambda>b3.
     Inr ((W1, b1, W2, b2, W3, b3), g3)))))))"

definition forward_propagation_3layer ::
  "real ndarray \<Rightarrow> real ndarray \<Rightarrow> real ndarray \<Rightarrow> real ndarray \<Rightarrow> real ndarray \<Rightarrow>
   real ndarray \<Rightarrow> real ndarray \<Rightarrow> error + (real ndarray \<times> real ndarray \<times> real ndarray)" where
  "forward_propagation_3layer X W1 b1 W2 b2 W3 b3 =
     bindE (np_dot W1 X) (\<lambda>D1. bindE (np_add D1 b1) (\<lambda>Z1.
     let A1 = relu Z1 in
     bindE (np_dot W2 A1) (\<lambda>D2. bindE (np_add D2 b2) (\<lambda>Z2.
     let A2 = relu Z2 in
     bindE (np_dot W3 A2) (\<lambda>D3. bindE (np_add D3 b3) (\<lambda>Z3.
     let A3 = sigmoid Z3 in
     Inr (A1, A2, A3)))))))"

definition compute_cost_3layer :: "real ndarray \<Rightarrow> real ndarray \<Rightarrow> error + real" where
  "compute_cost_3layer A3 y =
     (let m = shape1 y in
      bindE (np_multiply y (np_log A3)) (\<lambda>t1.
      bindE (np_multiply (map_nd (\<lambda>x. 1 - x) y) (np_log (map_nd (\<lambda>x. 1 - x) A3))) (\<lambda>t2.
      bindE (np_add t1 t2) (\<lambda>t.
      Inr (- np_sum t / real m)))))"

definition backward_propagation_3layer ::
  "real ndarray \<Rightarrow> real ndarray \<Rightarrow> real ndarray \<Rightarrow> real ndarray \<Rightarrow> real ndarray \<Rightarrow>
   real ndarray \<Rightarrow> real ndarray \<Rightarrow> error + params" where
  "backward_propagation_3layer X y A1 A2 A3 W2 W3 =
     (let m = shape1 X in
      bindE (np_subtract A3 y) (\<lambda>dZ3.
      bindE (np_dot dZ3 (transpose_nd A2)) (\<lambda>P3.
      let dW3 = map_nd (\<lambda>x. x / real m) P3;
          db3 = map_nd (\<lambda>x. x / real m) (np_sum_axis1 dZ3) in
      bindE (np_dot (transpose_nd W3) dZ3) (\<lambda>Q2.
      bindE (np_multiply_bool Q2 (gt0 A2)) (\<lambda>dZ2.
      bindE (np_dot dZ2 (transpose_nd A1)) (\<lambda>P2.
      let dW2 = map_nd (\<lambda>x. x / real m) P2;
          db2 = map_nd (\<lambda>x. x / real m) (np_sum_axis1 dZ2) in
      bindE (np_dot (transpose_nd W2) dZ2) (\<lambda>Q1.
      bindE (np_multiply_bool Q1 (gt0 A1)) (\<lambda>dZ1.
      bindE (np_dot dZ1 (transpose_nd X)) (\<lambda>P1.
      let dW1 = map_nd (\<lambda>x. x / real m) P1;
          db1 = map_nd (\<lambda>x. x / real m) (np_sum_axis1 dZ1) in
      Inr (dW1, db1, dW2, db2, dW3, db3))))))))))"

definition update_parameters_3layer :: "params \<Rightarrow> params \<Rightarrow> real \<Rightarrow> error + params" where
  "update_parameters_3layer p d learning_rate =
     (case (p, d) of ((W1, b1, W2, b2, W3, b3), (dW1, db1, dW2, db2, dW3, db3)) \<Rightarrow>
      bindE (np_subtract W1 (map_nd (\<lambda>x. learning_rate * x) dW1)) (\<lambda>W1'.
      bindE (np_subtract b1 (map_nd (\<lambda>x. learning_rate * x) db1)) (\<lambda>b1'.
      bindE (np_subtract W2 (map_nd (\<lambda>x. learning_rate * x) dW2)) (\<lambda>W2'.
      bindE (np_subtract b2 (map_nd (\<lambda>x. learning_rate * x) db2)) (\<lambda>b2'.
      bindE (np_subtract W3 (map_nd (\<lambda>x. learning_rate * x) dW3)) (\<lambda>W3'.
      bindE (np_subtract b3 (map_nd (\<lambda>x. learning_rate * x) db3)) (\<lambda>b3'.
      Inr (W1', b1', W2', b2', W3', b3'))))))))"

section \<open>The training loop\<close>

text \<open>
  The state of the loop of \<^verbatim>\<open>train_three_layer\<close>: the six parameter arrays, the
  list \<^verbatim>\<open>costs\<close>, and what \<^verbatim>\<open>print\<close> has written (one pair of epoch index
  and cost for each line \<^verbatim>\<open>Cost after iteration i: cost\<close>).
\<close>

record loop_state =
  weights :: params
  costs :: "real list"
  printed :: "(nat \<times> real) list"

definition epoch_body ::
  "real ndarray \<Rightarrow> real ndarray \<Rightarrow> real \<Rightarrow> nat \<Rightarrow> loop_state \<Rightarrow> error + loop_state" where
  "epoch_body X y learning_rate i s =
     (case weights s of (W1, b1, W2, b2, W3, b3) \<Rightarrow>
      bindE (forward_propagation_3layer X W1 b1 W2 b2 W3 b3) (\<lambda>(A1, A2, A3).
      bindE (compute_cost_3layer A3 y) (\<lambda>cost.
      bindE (backward_propagation_3layer X y A1 A2 A3 W2 W3) (\<lambda>d.
      bindE (update_parameters_3layer (W1, b1, W2, b2, W3, b3) d learning_rate) (\<lambda>p.
      Inr (if i mod 100 = 0
           then \<lparr>weights = p, costs = costs s @ [cost], printed = printed s @ [(i, cost)]\<rparr>
           else s\<lparr>weights := p\<rparr>))))))"

text \<open>\<^verbatim>\<open>for i in indices: body\<close>, stopping at the first exception.\<close>

fun for_range :: "(nat \<Rightarrow> 's \<Rightarrow> error + 's) \<Rightarrow> nat list \<Rightarrow> 's \<Rightarrow> error + 's" where
  "for_range body [] s = Inr s"
| "for_range body (i # is) s = bindE (body i s) (for_range body is)"

text \<open>
  \<^verbatim>\<open>range(epochs)\<close> is empty for \<^verbatim>\<open>epochs <= 0\<close>. The result is the tuple the
  function returns (the parameters and \<^verbatim>\<open>costs\<close>), the printed lines, and the
  generator after the initialisation.
\<close>

definition train_three_layer ::
  "real ndarray \<Rightarrow> real ndarray \<Rightarrow> int \<Rightarrow> int \<Rightarrow> real \<Rightarrow> int \<Rightarrow> rng \<Rightarrow>
   error + ((params \<times> real list) \<times> (nat \<times> real) list \<times> rng)" where
  "train_three_layer X y n_h1 n_h2 learning_rate epochs g =
     (let n_x = int (shape0 X); n_y = int (shape0 y) in
      bindE (initialize_parameters_3layer n_x n_h1 n_h2 n_y g) (\<lambda>(p, g').
      bindE (for_range (epoch_body X y learning_rate) [0..<nat epochs]
               \<lparr>weights = p, costs = [], printed = []\<rparr>) (\<lambda>s.
      Inr ((weights s, costs s), printed s, g'))))"

section \<open>Arrays as objects in a store\<close>

text \<open>
  The functions above take and return array values. Whether a stage writes to an array
  it was given is a question about array objects, so the cost computation, the backward
  pass and the update are modelled a second time over a store of objects named by
  references, one allocation for every array the Python expression creates, in the
  order Python evaluates it. Every NumPy
  operation the notebook uses returns a new array: the binary operators, the
  comparison, \<^verbatim>\<open>np.dot\<close>, \<^verbatim>\<open>np.log\<close> and \<^verbatim>\<open>np.sum\<close> allocate their result,
  and \<^verbatim>\<open>A.T\<close> makes a new array object (a view, which nothing writes through). The
  notebook has no augmented assignment, no \<^verbatim>\<open>out=\<close> argument and no indexed
  assignment; \<^verbatim>\<open>W1 = W1 - learning_rate * dW1\<close> binds the local name to the new
  array. A store is the list of the objects allocated so far, a reference an index
  into it.
\<close>

datatype cell = Floats "real ndarray" | Bools "bool ndarray"

type_synonym ref = nat

type_synonym store = "cell list"

type_synonym 'a prog = "store \<Rightarrow> error + ('a \<times> store)"

text \<open>An operand of an arithmetic operation: a boolean array counts as 0 and 1.\<close>

definition as_float :: "cell \<Rightarrow> real ndarray" where
  "as_float c = (case c of Floats A \<Rightarrow> A | Bools B \<Rightarrow> map_nd of_bool B)"

definition deref :: "store \<Rightarrow> ref \<Rightarrow> real ndarray" where
  "deref h r = as_float (h ! r)"

text \<open>A new object gets the next reference; the objects already there stay as they are.\<close>

definition snoc :: "store \<Rightarrow> cell \<Rightarrow> store" where
  "snoc h c = h @ [c]"

definition alloc :: "cell \<Rightarrow> store \<Rightarrow> ref \<times> store" where
  "alloc c h = (length h, snoc h c)"

definition returnS :: "'a \<Rightarrow> 'a prog" where
  "returnS x h = Inr (x, h)"

definition bindS :: "'a prog \<Rightarrow> ('a \<Rightarrow> 'b prog) \<Rightarrow> 'b prog" where
  "bindS m f h = (case m h of Inl e \<Rightarrow> Inl e | Inr (x, h') \<Rightarrow> f x h')"

text \<open>An operation on one array, or on two, whose result is a new array.\<close>

definition new1 :: "(real ndarray \<Rightarrow> real ndarray) \<Rightarrow> ref \<Rightarrow> ref prog" where
  "new1 f r h = Inr (alloc (Floats (f (deref h r))) h)"

definition new2 ::
  "(real ndarray \<Rightarrow> real ndarray \<Rightarrow> error + real ndarray) \<Rightarrow> ref \<Rightarrow> ref \<Rightarrow> ref prog" where
  "new2 f r1 r2 h =
     (case f (deref h r1) (deref h r2) of
        Inl e \<Rightarrow> Inl e
      | Inr A \<Rightarrow> Inr (alloc (Floats A) h))"

definition new_gt0 :: "ref \<Rightarrow> ref prog" where
  "new_gt0 r h = Inr (alloc (Bools (gt0 (deref h r))) h)"

text \<open>Reading \<^verbatim>\<open>A.shape[1]\<close> and \<^verbatim>\<open>np.sum(A)\<close>: a scalar, the store as it was.\<close>

definition read_shape1 :: "ref \<Rightarrow> nat prog" where
  "read_shape1 r h = Inr (shape1 (deref h r), h)"

definition read_sum :: "ref \<Rightarrow> real prog" where
  "read_sum r h = Inr (np_sum (deref h r), h)"

type_synonym refs6 = "ref \<times> ref \<times> ref \<times> ref \<times> ref \<times> ref"

definition compute_cost_3layer_h :: "ref \<Rightarrow> ref \<Rightarrow> real prog" where
  "compute_cost_3layer_h A3 y =
     bindS (read_shape1 y) (\<lambda>m.
     bindS (new1 np_log A3) (\<lambda>l1.
     bindS (new2 np_multiply y l1) (\<lambda>t1.
     bindS (new1 (map_nd (\<lambda>x. 1 - x)) y) (\<lambda>s1.
     bindS (new1 (map_nd (\<lambda>x. 1 - x)) A3) (\<lambda>s2.
     bindS (new1 np_log s2) (\<lambda>l2.
     bindS (new2 np_multiply s1 l2) (\<lambda>t2.
     bindS (new2 np_add t1 t2) (\<lambda>t.
     bindS (read_sum t) (\<lambda>s.
     returnS (- s / real m))))))))))"

definition backward_propagation_3layer_h ::
  "ref \<Rightarrow> ref \<Rightarrow> ref \<Rightarrow> ref \<Rightarrow> ref \<Rightarrow> ref \<Rightarrow> ref \<Rightarrow> refs6 prog" where
  "backward_propagation_3layer_h X y A1 A2 A3 W2 W3 =
     bindS (read_shape1 X) (\<lambda>m.
     bindS (new2 np_subtract A3 y) (\<lambda>dZ3.
     bindS (new1 transpose_nd A2) (\<lambda>A2T.
     bindS (new2 np_dot dZ3 A2T) (\<lambda>P3.
     bindS (new1 (map_nd (\<lambda>x. x / real m)) P3) (\<lambda>dW3.
     bindS (new1 np_sum_axis1 dZ3) (\<lambda>S3.
     bindS (new1 (map_nd (\<lambda>x. x / real m)) S3) (\<lambda>db3.
     bindS (new1 transpose_nd W3) (\<lambda>W3T.
     bindS (new2 np_dot W3T dZ3) (\<lambda>Q2.
     bindS (new_gt0 A2) (\<lambda>M2.
     bindS (new2 np_multiply Q2 M2) (\<lambda>dZ2.
     bindS (new1 transpose_nd A1) (\<lambda>A1T.
     bindS (new2 np_dot dZ2 A1T) (\<lambda>P2.
     bindS (new1 (map_nd (\<lambda>x. x / real m)) P2) (\<lambda>dW2.
     bindS (new1 np_sum_axis1 dZ2) (\<lambda>S2.
     bindS (new1 (map_nd (\<lambda>x. x / real m)) S2) (\<lambda>db2.
     bindS (new1 transpose_nd W2) (\<lambda>W2T.
     bindS (new2 np_dot W2T dZ2) (\<lambda>Q1.
     bindS (new_gt0 A1) (\<lambda>M1.
     bindS (new2 np_multiply Q1 M1) (\<lambda>dZ1.
     bindS (new1 transpose_nd X) (\<lambda>XT.
     bindS (new2 np_dot dZ1 XT) (\<lambda>P1.
     bindS (new1 (map_nd (\<lambda>x. x / real m)) P1) (\<lambda>dW1.
     bindS (new1 np_sum_axis1 dZ1) (\<lambda>S1.
     bindS (new1 (map_nd (\<lambda>x. x / real m)) S1) (\<lambda>db1.
     returnS (dW1, db1, dW2, db2, dW3, db3))))))))))))))))))))))))))"

definition update_parameters_3layer_h :: "refs6 \<Rightarrow> refs6 \<Rightarrow> real \<Rightarrow> refs6 prog" where
  "update_parameters_3layer_h p d learning_rate =
     (case (p, d) of ((W1, b1, W2, b2, W3, b3), (dW1, db1, dW2, db2, dW3, db3)) \<Rightarrow>
      bindS (new1 (map_nd (\<lambda>x. learning_rate * x)) dW1) (\<lambda>t1.
      bindS (new2 np_subtract W1 t1) (\<lambda>W1'.
      bindS (new1 (map_nd (\<lambda>x. learning_rate * x)) db1) (\<lambda>t2.
      bindS (new2 np_subtract b1 t2) (\<lambda>b1'.
      bindS (new1 (map_nd (\<lambda>x. learning_rate * x)) dW2) (\<lambda>t3.
      bindS (new2 np_subtract W2 t3) (\<lambda>W2'.
      bindS (new1 (map_nd (\<lambda>x. learning_rate * x)) db2) (\<lambda>t4.
      bindS (new2 np_subtract b2 t4) (\<lambda>b2'.
      bindS (new1 (map_nd (\<lambda>x. learning_rate * x)) dW3) (\<lambda>t5.
      bindS (new2 np_subtract W3 t5) (\<lambda>W3'.
      bindS (new1 (map_nd (\<lambda>x. learning_rate * x)) db3) (\<lambda>t6.
      bindS (new2 np_subtract b3 t6) (\<lambda>b3'.
      returnS (W1', b1', W2', b2', W3', b3'))))))))))))))"

text \<open>The arrays six references name, and references that name objects of a store.\<close>

definition deref6 :: "store \<Rightarrow> refs6 \<Rightarrow> params" where
  "deref6 h p = (case p of (r1, r2, r3, r4, r5, r6) \<Rightarrow>
     (deref h r1, deref h r2, deref h r3, deref h r4, deref h r5, deref h r6))"

definition valid6 :: "store \<Rightarrow> refs6 \<Rightarrow> bool" where
  "valid6 h p = (case p of (r1, r2, r3, r4, r5, r6) \<Rightarrow>
     r1 < length h \<and> r2 < length h \<and> r3 < length h \<and> r4 < length h \<and> r5 < length h
     \<and> r6 < length h)"

text \<open>References to objects that did not exist in the store \<open>h\<close>.\<close>

definition fresh6 :: "store \<Rightarrow> refs6 \<Rightarrow> bool" where
  "fresh6 h p = (case p of (r1, r2, r3, r4, r5, r6) \<Rightarrow>
     length h \<le> r1 \<and> length h \<le> r2 \<and> length h \<le> r3 \<and> length h \<le> r4 \<and> length h \<le> r5
     \<and> length h \<le> r6)"

text \<open>Every object of the store \<open>h\<close> is in \<open>h'\<close> under the same reference, unchanged.\<close>

definition unchanged :: "store \<Rightarrow> store \<Rightarrow> bool" where
  "unchanged h h' = (take (length h) h' = h)"

text \<open>A program that, whenever it returns, has left every object of its store unchanged.\<close>

definition allocates_only :: "'a prog \<Rightarrow> bool" where
  "allocates_only m = (\<forall>h x h'. m h = Inr (x, h') \<longrightarrow> unchanged h h')"

section \<open>The closed forms of the specification\<close>

text \<open>
  The formulas the specification gives, entry by entry and with sums over index ranges.
  They are what the functions above are compared with; none of them is used by the
  model of the code.
\<close>

text \<open>\<open>Z = W \<cdot> A + b\<close>, the bias broadcast across the columns.\<close>

definition pre_activation_spec ::
  "real ndarray \<Rightarrow> real ndarray \<Rightarrow> real ndarray \<Rightarrow> nat \<Rightarrow> nat \<Rightarrow> real" where
  "pre_activation_spec W A b i j = (\<Sum>k<shape1 W. entry W i k * entry A k j) + entry b i 0"

text \<open>\<open>ReLU'(z) = 1\<close> if \<open>z > 0\<close>, else \<open>0\<close>.\<close>

definition relu_prime_spec :: "real \<Rightarrow> real" where
  "relu_prime_spec z = (if 0 < z then 1 else 0)"

text \<open>Output layer: \<open>dZ = A - y\<close>.\<close>

definition dZ_out_spec :: "real ndarray \<Rightarrow> real ndarray \<Rightarrow> nat \<Rightarrow> nat \<Rightarrow> real" where
  "dZ_out_spec A y i k = entry A i k - entry y i k"

text \<open>
  Hidden layer: \<open>dZ = (W\<^sup>T \<cdot> dZ') \<odot> msk\<close>, for the weights \<open>W\<close> and the \<open>dZ'\<close> of
  the next layer and a mask \<open>msk\<close>.
\<close>

definition dZ_hidden_spec ::
  "real ndarray \<Rightarrow> (nat \<Rightarrow> nat \<Rightarrow> real) \<Rightarrow> (nat \<Rightarrow> nat \<Rightarrow> real) \<Rightarrow> nat \<Rightarrow> nat \<Rightarrow> real" where
  "dZ_hidden_spec W dZ msk i k = (\<Sum>r<shape0 W. entry W r i * dZ r k) * msk i k"

text \<open>The mask read off an array: 1 where the entry is positive, 0 elsewhere.\<close>

definition mask_of :: "real ndarray \<Rightarrow> nat \<Rightarrow> nat \<Rightarrow> real" where
  "mask_of A i k = (if 0 < entry A i k then 1 else 0)"

text \<open>\<open>dW = (1/m) \<cdot> dZ \<cdot> A_prev\<^sup>T\<close> and \<open>db = (1/m) \<cdot>\<close> the sum of the columns of \<open>dZ\<close>.\<close>

definition dW_spec ::
  "nat \<Rightarrow> (nat \<Rightarrow> nat \<Rightarrow> real) \<Rightarrow> real ndarray \<Rightarrow> nat \<Rightarrow> nat \<Rightarrow> real" where
  "dW_spec m dZ A_prev i j = (1 / real m) * (\<Sum>k<m. dZ i k * entry A_prev j k)"

definition db_spec :: "nat \<Rightarrow> (nat \<Rightarrow> nat \<Rightarrow> real) \<Rightarrow> nat \<Rightarrow> real" where
  "db_spec m dZ i = (1 / real m) * (\<Sum>k<m. dZ i k)"

text \<open>The binary cross-entropy of a row of predictions against a row of labels.\<close>

definition bce_spec :: "nat \<Rightarrow> real ndarray \<Rightarrow> real ndarray \<Rightarrow> real" where
  "bce_spec m A y =
     - (1 / real m) *
       (\<Sum>i<m. entry y 0 i * ln (entry A 0 i) + (1 - entry y 0 i) * ln (1 - entry A 0 i))"

text \<open>
  The training loop as the specification describes it. One epoch is forward propagation,
  then the cost, then backward propagation, then the update, on the parameters it is
  given; it yields the new parameters and the cost of the old ones.
\<close>

definition epoch_spec ::
  "real ndarray \<Rightarrow> real ndarray \<Rightarrow> real \<Rightarrow> params \<Rightarrow> error + (params \<times> real)" where
  "epoch_spec X y \<alpha> p =
     (case p of (W1, b1, W2, b2, W3, b3) \<Rightarrow>
      bindE (forward_propagation_3layer X W1 b1 W2 b2 W3 b3) (\<lambda>(A1, A2, A3).
      bindE (compute_cost_3layer A3 y) (\<lambda>J.
      bindE (backward_propagation_3layer X y A1 A2 A3 W2 W3) (\<lambda>d.
      bindE (update_parameters_3layer p d \<alpha>) (\<lambda>p'.
      Inr (p', J))))))"

text \<open>The parameters after \<open>n\<close> epochs, and the cost computed in epoch \<open>n\<close>.\<close>

fun params_after :: "real ndarray \<Rightarrow> real ndarray \<Rightarrow> real \<Rightarrow> params \<Rightarrow> nat \<Rightarrow> error + params" where
  "params_after X y \<alpha> p0 0 = Inr p0"
| "params_after X y \<alpha> p0 (Suc n) =
     bindE (params_after X y \<alpha> p0 n) (\<lambda>p. bindE (epoch_spec X y \<alpha> p) (\<lambda>(p', J). Inr p'))"

definition cost_at :: "real ndarray \<Rightarrow> real ndarray \<Rightarrow> real \<Rightarrow> params \<Rightarrow> nat \<Rightarrow> error + real" where
  "cost_at X y \<alpha> p0 n =
     bindE (params_after X y \<alpha> p0 n) (\<lambda>p. bindE (epoch_spec X y \<alpha> p) (\<lambda>(p', J). Inr J))"

text \<open>
  What holds of the loop state after \<open>n\<close> iterations: the parameters are those after
  \<open>n\<close> epochs, and \<^verbatim>\<open>costs\<close> and the printed lines hold the costs of the
  epochs \<open>0, 100, 200, ...\<close> below \<open>n\<close>, in order.
\<close>

definition loop_inv ::
  "real ndarray \<Rightarrow> real ndarray \<Rightarrow> real \<Rightarrow> params \<Rightarrow> nat \<Rightarrow> loop_state \<Rightarrow> bool" where
  "loop_inv X y \<alpha> p0 n s =
     (params_after X y \<alpha> p0 n = Inr (weights s)
      \<and> length (costs s) = (n + 99) div 100
      \<and> (\<forall>k<length (costs s). cost_at X y \<alpha> p0 (100 * k) = Inr (costs s ! k))
      \<and> printed s = map (\<lambda>k. (100 * k, costs s ! k)) [0..<length (costs s)])"

text \<open>The shapes of a parameter set for the layer widths \<open>n0, n1, n2, n3\<close>.\<close>

definition params_shapes :: "nat \<Rightarrow> nat \<Rightarrow> nat \<Rightarrow> nat \<Rightarrow> params \<Rightarrow> bool" where
  "params_shapes n0 n1 n2 n3 p =
     (case p of (W1, b1, W2, b2, W3, b3) \<Rightarrow>
        shape0 W1 = n1 \<and> shape1 W1 = n0 \<and> shape0 b1 = n1 \<and> shape1 b1 = 1
      \<and> shape0 W2 = n2 \<and> shape1 W2 = n1 \<and> shape0 b2 = n2 \<and> shape1 b2 = 1
      \<and> shape0 W3 = n3 \<and> shape1 W3 = n2 \<and> shape0 b3 = n3 \<and> shape1 b3 = 1)"

text \<open>
  The update in closed form: \<open>W - \<alpha> \<cdot> dW\<close>, entry by entry, for an array and a gradient
  of its shape, and for all six parameters.
\<close>

definition sub_scaled :: "real \<Rightarrow> real ndarray \<Rightarrow> real ndarray \<Rightarrow> real ndarray" where
  "sub_scaled \<alpha> W dW = mk (shape0 W) (shape1 W) (\<lambda>i j. entry W i j - \<alpha> * entry dW i j)"

definition same_shape :: "real ndarray \<Rightarrow> real ndarray \<Rightarrow> bool" where
  "same_shape A B = (shape0 A = shape0 B \<and> shape1 A = shape1 B)"

definition same_shapes6 :: "params \<Rightarrow> params \<Rightarrow> bool" where
  "same_shapes6 D P = (case (D, P) of ((dW1, db1, dW2, db2, dW3, db3), (W1, b1, W2, b2, W3, b3)) \<Rightarrow>
     same_shape dW1 W1 \<and> same_shape db1 b1 \<and> same_shape dW2 W2 \<and> same_shape db2 b2
     \<and> same_shape dW3 W3 \<and> same_shape db3 b3)"

definition updated_spec :: "real \<Rightarrow> params \<Rightarrow> params \<Rightarrow> params" where
  "updated_spec \<alpha> P D = (case (P, D) of ((W1, b1, W2, b2, W3, b3), (dW1, db1, dW2, db2, dW3, db3)) \<Rightarrow>
     (sub_scaled \<alpha> W1 dW1, sub_scaled \<alpha> b1 db1, sub_scaled \<alpha> W2 dW2, sub_scaled \<alpha> b2 db2,
      sub_scaled \<alpha> W3 dW3, sub_scaled \<alpha> b3 db3))"

section \<open>Basic facts about arrays\<close>

lemma bindE_Inr [simp]: "bindE (Inr v) f = f v"
  by (simp add: bindE_def)

lemma bindE_Inl [simp]: "bindE (Inl e) f = Inl e"
  by (simp add: bindE_def)

lemma shape0_mk [simp]: "shape0 (mk r c f) = r"
  by (simp add: mk_def)

lemma shape1_mk [simp]: "shape1 (mk r c f) = c"
  by (simp add: mk_def)

lemma entry_mk [simp]: "i < r \<Longrightarrow> j < c \<Longrightarrow> entry (mk r c f) i j = f i j"
  by (simp add: mk_def entry_def)

lemma mk_cong: "(\<And>i j. i < r \<Longrightarrow> j < c \<Longrightarrow> f i j = g i j) \<Longrightarrow> mk r c f = mk r c g"
  by (simp add: mk_def)

lemma shape0_map_nd [simp]: "shape0 (map_nd f A) = shape0 A"
  by (simp add: map_nd_def)

lemma shape1_map_nd [simp]: "shape1 (map_nd f A) = shape1 A"
  by (simp add: map_nd_def)

lemma entry_map_nd [simp]:
  "i < shape0 A \<Longrightarrow> j < shape1 A \<Longrightarrow> entry (map_nd f A) i j = f (entry A i j)"
  by (simp add: map_nd_def)

lemma shape0_transpose_nd [simp]: "shape0 (transpose_nd A) = shape1 A"
  by (simp add: transpose_nd_def)

lemma shape1_transpose_nd [simp]: "shape1 (transpose_nd A) = shape0 A"
  by (simp add: transpose_nd_def)

lemma entry_transpose_nd [simp]:
  "i < shape1 A \<Longrightarrow> j < shape0 A \<Longrightarrow> entry (transpose_nd A) i j = entry A j i"
  by (simp add: transpose_nd_def)

lemma sum_list_upt: "sum_list (map f [0..<n]) = (\<Sum>k<n. f k)"
  by (simp add: interv_sum_list_conv_sum_set_nat atLeast0LessThan)

lemma broadcast2_same:
  assumes "shape0 B = shape0 A" "shape1 B = shape1 A"
  shows "broadcast2 f A B = Inr (mk (shape0 A) (shape1 A) (\<lambda>i j. f (entry A i j) (entry B i j)))"
  using assms by (auto simp: broadcast2_def bdim_def bidx_def intro!: mk_cong)

lemma broadcast2_column:
  assumes "shape0 B = shape0 A" "shape1 B = 1"
  shows "broadcast2 f A B = Inr (mk (shape0 A) (shape1 A) (\<lambda>i j. f (entry A i j) (entry B i 0)))"
  using assms by (auto simp: broadcast2_def bdim_def bidx_def intro!: mk_cong)

lemma np_dot_ok:
  assumes "shape1 A = shape0 B"
  shows "np_dot A B = Inr (mk (shape0 A) (shape1 B) (\<lambda>i j. \<Sum>k<shape1 A. entry A i k * entry B k j))"
  using assms by (simp add: np_dot_def sum_list_upt)

lemma shape0_relu [simp]: "shape0 (relu Z) = shape0 Z"
  by (simp add: relu_def)

lemma shape1_relu [simp]: "shape1 (relu Z) = shape1 Z"
  by (simp add: relu_def)

lemma entry_relu [simp]:
  "i < shape0 Z \<Longrightarrow> j < shape1 Z \<Longrightarrow> entry (relu Z) i j = max 0 (entry Z i j)"
  by (simp add: relu_def)

lemma shape0_sigmoid [simp]: "shape0 (sigmoid Z) = shape0 Z"
  by (simp add: sigmoid_def np_exp_def)

lemma shape1_sigmoid [simp]: "shape1 (sigmoid Z) = shape1 Z"
  by (simp add: sigmoid_def np_exp_def)

lemma entry_sigmoid [simp]:
  "i < shape0 Z \<Longrightarrow> j < shape1 Z \<Longrightarrow> entry (sigmoid Z) i j = 1 / (1 + exp (- entry Z i j))"
  by (simp add: sigmoid_def np_exp_def)

section \<open>The value of each stage on arrays of matching shapes\<close>

lemma linear_layer:
  assumes "shape1 W = shape0 A" "shape0 b = shape0 W" "shape1 b = 1"
  shows "bindE (np_dot W A) (\<lambda>D. bindE (np_add D b) k) =
         k (mk (shape0 W) (shape1 A) (pre_activation_spec W A b))"
proof -
  let ?D = "mk (shape0 W) (shape1 A) (\<lambda>i j. \<Sum>k<shape1 W. entry W i k * entry A k j)"
  have d: "np_dot W A = Inr ?D"
    using assms by (simp add: np_dot_ok)
  have "np_add ?D b = Inr (mk (shape0 W) (shape1 A) (pre_activation_spec W A b))"
    unfolding np_add_def using assms
    by (auto simp: broadcast2_column pre_activation_spec_def intro!: mk_cong)
  with d show ?thesis by simp
qed

lemma forward_value:
  assumes "shape0 X = n0" "shape1 X = m"
    and "shape0 W1 = n1" "shape1 W1 = n0" "shape0 b1 = n1" "shape1 b1 = 1"
    and "shape0 W2 = n2" "shape1 W2 = n1" "shape0 b2 = n2" "shape1 b2 = 1"
    and "shape0 W3 = n3" "shape1 W3 = n2" "shape0 b3 = n3" "shape1 b3 = 1"
  defines "Z1 \<equiv> mk n1 m (pre_activation_spec W1 X b1)"
  defines "Z2 \<equiv> mk n2 m (pre_activation_spec W2 (relu Z1) b2)"
  defines "Z3 \<equiv> mk n3 m (pre_activation_spec W3 (relu Z2) b3)"
  shows "forward_propagation_3layer X W1 b1 W2 b2 W3 b3 = Inr (relu Z1, relu Z2, sigmoid Z3)"
  unfolding forward_propagation_3layer_def Let_def Z1_def Z2_def Z3_def using assms(1-14)
  by (simp add: linear_layer)

lemma np_subtract_same:
  assumes "shape0 B = shape0 A" "shape1 B = shape1 A"
  shows "np_subtract A B = Inr (mk (shape0 A) (shape1 A) (\<lambda>i j. entry A i j - entry B i j))"
  unfolding np_subtract_def using assms by (rule broadcast2_same)

lemma np_multiply_bool_gt0:
  assumes "shape0 A = shape0 Q" "shape1 A = shape1 Q"
  shows "np_multiply_bool Q (gt0 A)
         = Inr (mk (shape0 Q) (shape1 Q) (\<lambda>i j. entry Q i j * mask_of A i j))"
  unfolding np_multiply_bool_def using assms
  by (auto simp: broadcast2_same gt0_def mask_of_def intro!: mk_cong)

lemma dot_transpose:
  assumes "shape1 A = m"
  shows "np_dot (mk n m f) (transpose_nd A)
         = Inr (mk n (shape0 A) (\<lambda>i j. \<Sum>k<m. f i k * entry A j k))"
  using assms by (auto simp: np_dot_ok intro!: mk_cong sum.cong)

lemma grad_W:
  "map_nd (\<lambda>x. x / real m) (mk n c (\<lambda>i j. \<Sum>k<m. f i k * entry A j k)) = mk n c (dW_spec m f A)"
  by (auto simp: map_nd_def dW_spec_def intro!: mk_cong)

lemma grad_b:
  "map_nd (\<lambda>x. x / real m) (np_sum_axis1 (mk n m f)) = mk n 1 (\<lambda>i j. db_spec m f i)"
  by (auto simp: map_nd_def np_sum_axis1_def db_spec_def sum_list_upt intro!: mk_cong sum.cong)

lemma back_dot:
  assumes "shape0 W = n"
  shows "np_dot (transpose_nd W) (mk n m f)
         = Inr (mk (shape1 W) m (\<lambda>i k. \<Sum>r<shape0 W. entry W r i * f r k))"
  using assms by (auto simp: np_dot_ok intro!: mk_cong sum.cong)

lemma hidden_dZ:
  assumes "shape0 W = n" "shape0 A = shape1 W" "shape1 A = m"
  shows "bindE (np_dot (transpose_nd W) (mk n m f)) (\<lambda>Q. bindE (np_multiply_bool Q (gt0 A)) k)
         = k (mk (shape1 W) m (dZ_hidden_spec W f (mask_of A)))"
proof -
  let ?Q = "mk (shape1 W) m (\<lambda>i k. \<Sum>r<shape0 W. entry W r i * f r k)"
  have "np_multiply_bool ?Q (gt0 A) = Inr (mk (shape1 W) m (dZ_hidden_spec W f (mask_of A)))"
    using assms by (auto simp: np_multiply_bool_gt0 dZ_hidden_spec_def intro!: mk_cong)
  then show ?thesis using assms by (simp add: back_dot)
qed

lemma backward_value:
  assumes "shape0 X = n0" "shape1 X = m" "shape0 y = n3" "shape1 y = m"
    and "shape0 A1 = n1" "shape1 A1 = m" "shape0 A2 = n2" "shape1 A2 = m"
    and "shape0 A3 = n3" "shape1 A3 = m"
    and "shape0 W2 = n2" "shape1 W2 = n1" "shape0 W3 = n3" "shape1 W3 = n2"
  defines "dZ3 \<equiv> dZ_out_spec A3 y"
  defines "dZ2 \<equiv> dZ_hidden_spec W3 dZ3 (mask_of A2)"
  defines "dZ1 \<equiv> dZ_hidden_spec W2 dZ2 (mask_of A1)"
  shows "backward_propagation_3layer X y A1 A2 A3 W2 W3 =
         Inr (mk n1 n0 (dW_spec m dZ1 X), mk n1 1 (\<lambda>i j. db_spec m dZ1 i),
              mk n2 n1 (dW_spec m dZ2 A1), mk n2 1 (\<lambda>i j. db_spec m dZ2 i),
              mk n3 n2 (dW_spec m dZ3 A2), mk n3 1 (\<lambda>i j. db_spec m dZ3 i))"
proof -
  have s: "np_subtract A3 y = Inr (mk n3 m dZ3)"
    using assms(1-14) by (auto simp: np_subtract_same dZ3_def dZ_out_spec_def intro!: mk_cong)
  show ?thesis
    unfolding backward_propagation_3layer_def Let_def s
    using assms(1-14) by (simp add: dot_transpose grad_W grad_b hidden_dZ dZ2_def dZ1_def)
qed

lemma mask_of_relu:
  assumes "i < r" "k < c"
  shows "mask_of (relu (mk r c f)) i k = relu_prime_spec (f i k)"
  using assms by (simp add: mask_of_def relu_prime_spec_def)

lemma np_multiply_same:
  assumes "shape0 B = shape0 A" "shape1 B = shape1 A"
  shows "np_multiply A B = Inr (mk (shape0 A) (shape1 A) (\<lambda>i j. entry A i j * entry B i j))"
  unfolding np_multiply_def using assms by (rule broadcast2_same)

lemma np_add_same:
  assumes "shape0 B = shape0 A" "shape1 B = shape1 A"
  shows "np_add A B = Inr (mk (shape0 A) (shape1 A) (\<lambda>i j. entry A i j + entry B i j))"
  unfolding np_add_def using assms by (rule broadcast2_same)

lemma np_add_mk:
  "np_add (mk r c f) (mk r c g) = Inr (mk r c (\<lambda>i j. f i j + g i j))"
  by (auto simp: np_add_same intro!: mk_cong)

lemma np_sum_row: "np_sum (mk (Suc 0) m f) = (\<Sum>i<m. f 0 i)"
  by (auto simp: np_sum_def sum_list_upt intro!: sum.cong)

lemma dZ_hidden_spec_cong:
  assumes "\<And>r. r < shape0 W \<Longrightarrow> dZ r k = dZ' r k" "msk i k = msk' i k"
  shows "dZ_hidden_spec W dZ msk i k = dZ_hidden_spec W dZ' msk' i k"
  using assms by (simp add: dZ_hidden_spec_def)

lemma dW_spec_cong:
  assumes "\<And>k. k < m \<Longrightarrow> dZ i k = dZ' i k"
  shows "dW_spec m dZ A i j = dW_spec m dZ' A i j"
  using assms by (simp add: dW_spec_def)

lemma db_spec_cong:
  assumes "\<And>k. k < m \<Longrightarrow> dZ i k = dZ' i k"
  shows "db_spec m dZ i = db_spec m dZ' i"
  using assms by (simp add: db_spec_def)

lemma backward_after_forward:
  assumes "shape0 X = n0" "shape1 X = m" "shape0 y = n3" "shape1 y = m"
    and "shape0 W1 = n1" "shape1 W1 = n0" "shape0 b1 = n1" "shape1 b1 = 1"
    and "shape0 W2 = n2" "shape1 W2 = n1" "shape0 b2 = n2" "shape1 b2 = 1"
    and "shape0 W3 = n3" "shape1 W3 = n2" "shape0 b3 = n3" "shape1 b3 = 1"
    and f: "forward_propagation_3layer X W1 b1 W2 b2 W3 b3 = Inr (A1, A2, A3)"
  defines "dZ3 \<equiv> dZ_out_spec A3 y"
  defines "dZ2 \<equiv> dZ_hidden_spec W3 dZ3 (\<lambda>i k. relu_prime_spec (pre_activation_spec W2 A1 b2 i k))"
  defines "dZ1 \<equiv> dZ_hidden_spec W2 dZ2 (\<lambda>i k. relu_prime_spec (pre_activation_spec W1 X b1 i k))"
  shows "backward_propagation_3layer X y A1 A2 A3 W2 W3 =
         Inr (mk n1 n0 (dW_spec m dZ1 X), mk n1 1 (\<lambda>i j. db_spec m dZ1 i),
              mk n2 n1 (dW_spec m dZ2 A1), mk n2 1 (\<lambda>i j. db_spec m dZ2 i),
              mk n3 n2 (dW_spec m dZ3 A2), mk n3 1 (\<lambda>i j. db_spec m dZ3 i))"
proof -
  let ?Z1 = "mk n1 m (pre_activation_spec W1 X b1)"
  let ?Z2 = "mk n2 m (pre_activation_spec W2 (relu ?Z1) b2)"
  let ?Z3 = "mk n3 m (pre_activation_spec W3 (relu ?Z2) b3)"
  have a: "A1 = relu ?Z1" "A2 = relu ?Z2" "A3 = sigmoid ?Z3"
    using forward_value [OF assms(1,2,5-16)] f by simp_all
  have sh: "shape0 A1 = n1" "shape1 A1 = m" "shape0 A2 = n2" "shape1 A2 = m"
    "shape0 A3 = n3" "shape1 A3 = m"
    by (simp_all add: a)
  let ?e2 = "dZ_hidden_spec W3 dZ3 (mask_of A2)"
  let ?e1 = "dZ_hidden_spec W2 ?e2 (mask_of A1)"
  have m2: "mask_of A2 i k = relu_prime_spec (pre_activation_spec W2 A1 b2 i k)"
    if "i < n2" "k < m" for i k
    using that unfolding a by (simp add: mask_of_relu)
  have m1: "mask_of A1 i k = relu_prime_spec (pre_activation_spec W1 X b1 i k)"
    if "i < n1" "k < m" for i k
    using that unfolding a by (simp add: mask_of_relu)
  have e2: "?e2 i k = dZ2 i k" if "i < n2" "k < m" for i k
    unfolding dZ2_def using that by (intro dZ_hidden_spec_cong refl m2)
  have e1: "?e1 i k = dZ1 i k" if "i < n1" "k < m" for i k
    unfolding dZ1_def using that assms(9) by (intro dZ_hidden_spec_cong e2 m1) simp_all
  have "backward_propagation_3layer X y A1 A2 A3 W2 W3 =
         Inr (mk n1 n0 (dW_spec m ?e1 X), mk n1 1 (\<lambda>i j. db_spec m ?e1 i),
              mk n2 n1 (dW_spec m ?e2 A1), mk n2 1 (\<lambda>i j. db_spec m ?e2 i),
              mk n3 n2 (dW_spec m dZ3 A2), mk n3 1 (\<lambda>i j. db_spec m dZ3 i))"
    unfolding dZ3_def using assms(1-4) sh assms(9,10,13,14) by (rule backward_value)
  moreover have "mk n1 n0 (dW_spec m ?e1 X) = mk n1 n0 (dW_spec m dZ1 X)"
    by (intro mk_cong dW_spec_cong e1)
  moreover have "mk n1 1 (\<lambda>i j. db_spec m ?e1 i) = mk n1 1 (\<lambda>i j. db_spec m dZ1 i)"
    by (intro mk_cong db_spec_cong e1)
  moreover have "mk n2 n1 (dW_spec m ?e2 A1) = mk n2 n1 (dW_spec m dZ2 A1)"
    by (intro mk_cong dW_spec_cong e2)
  moreover have "mk n2 1 (\<lambda>i j. db_spec m ?e2 i) = mk n2 1 (\<lambda>i j. db_spec m dZ2 i)"
    by (intro mk_cong db_spec_cong e2)
  ultimately show ?thesis by (simp only:)
qed

lemmas spec_eval = dW_spec_def db_spec_def dZ_out_spec_def dZ_hidden_spec_def mask_of_def
  pre_activation_spec_def relu_prime_spec_def entry_def numeral_2_eq_2

section \<open>The update and the training loop\<close>

lemmas code_eval = bindE_def np_dot_def np_add_def np_subtract_def np_multiply_def
  np_multiply_bool_def broadcast2_def bdim_def bidx_def map_nd_def relu_def sigmoid_def
  np_exp_def np_log_def gt0_def transpose_nd_def np_sum_axis1_def np_sum_def np_zeros_def
  randn_def mk_def entry_def Let_def

lemmas stage_defs = forward_propagation_3layer_def compute_cost_3layer_def
  backward_propagation_3layer_def update_parameters_3layer_def

lemma update_value:
  assumes "shape0 dW1 = shape0 W1" "shape1 dW1 = shape1 W1" "shape0 db1 = shape0 b1" "shape1 db1 = shape1 b1"
    and "shape0 dW2 = shape0 W2" "shape1 dW2 = shape1 W2" "shape0 db2 = shape0 b2" "shape1 db2 = shape1 b2"
    and "shape0 dW3 = shape0 W3" "shape1 dW3 = shape1 W3" "shape0 db3 = shape0 b3" "shape1 db3 = shape1 b3"
  shows "update_parameters_3layer (W1, b1, W2, b2, W3, b3) (dW1, db1, dW2, db2, dW3, db3) \<alpha> =
    Inr (mk (shape0 W1) (shape1 W1) (\<lambda>i j. entry W1 i j - \<alpha> * entry dW1 i j),
         mk (shape0 b1) (shape1 b1) (\<lambda>i j. entry b1 i j - \<alpha> * entry db1 i j),
         mk (shape0 W2) (shape1 W2) (\<lambda>i j. entry W2 i j - \<alpha> * entry dW2 i j),
         mk (shape0 b2) (shape1 b2) (\<lambda>i j. entry b2 i j - \<alpha> * entry db2 i j),
         mk (shape0 W3) (shape1 W3) (\<lambda>i j. entry W3 i j - \<alpha> * entry dW3 i j),
         mk (shape0 b3) (shape1 b3) (\<lambda>i j. entry b3 i j - \<alpha> * entry db3 i j))"
proof -
  have s: "np_subtract W (map_nd (\<lambda>x. \<alpha> * x) dW)
           = Inr (mk (shape0 W) (shape1 W) (\<lambda>i j. entry W i j - \<alpha> * entry dW i j))"
    if "shape0 dW = shape0 W" "shape1 dW = shape1 W" for W dW
    using that by (auto simp: np_subtract_same intro!: mk_cong)
  show ?thesis
    unfolding update_parameters_3layer_def using assms by (simp add: s)
qed

lemma for_range_snoc:
  "for_range body (xs @ [i]) s = bindE (for_range body xs s) (body i)"
  by (induction xs arbitrary: s) (auto simp: bindE_def split: sum.splits)

lemma epoch_body_spec:
  "epoch_body X y \<alpha> i s =
     bindE (epoch_spec X y \<alpha> (weights s)) (\<lambda>(p, J).
       Inr (if i mod 100 = 0
            then \<lparr>weights = p, costs = costs s @ [J], printed = printed s @ [(i, J)]\<rparr>
            else s\<lparr>weights := p\<rparr>))"
  by (auto simp: epoch_body_def epoch_spec_def bindE_def split: prod.splits sum.splits)

lemma sample_count_hit:
  fixes n :: nat
  assumes "n mod 100 = 0"
  shows "(Suc n + 99) div 100 = Suc ((n + 99) div 100)" and "100 * ((n + 99) div 100) = n"
proof -
  from assms obtain q where n: "n = 100 * q" by (auto simp: mod_eq_0_iff_dvd)
  have a: "(n + 99) div 100 = q"
    by (rule div_nat_eqI) (simp_all add: n)
  have b: "(Suc n + 99) div 100 = Suc q"
    by (rule div_nat_eqI) (simp_all add: n)
  show "(Suc n + 99) div 100 = Suc ((n + 99) div 100)" using a b by simp
  show "100 * ((n + 99) div 100) = n" using a n by simp
qed

lemma sample_count_miss:
  fixes n :: nat
  assumes "n mod 100 \<noteq> 0"
  shows "(Suc n + 99) div 100 = (n + 99) div 100"
proof -
  define q where "q = n div 100"
  define r where "r = n mod 100"
  have n: "n = 100 * q + r" by (simp add: q_def r_def)
  have r: "0 < r" "r < 100" using assms by (simp_all add: r_def)
  have a: "(n + 99) div 100 = Suc q"
    by (rule div_nat_eqI) (use r in \<open>simp_all add: n\<close>)
  have b: "(Suc n + 99) div 100 = Suc q"
    by (rule div_nat_eqI) (use r in \<open>simp_all add: n\<close>)
  show ?thesis using a b by simp
qed

lemma loop_inv_step:
  assumes inv: "loop_inv X y \<alpha> p0 n s" and step: "epoch_body X y \<alpha> n s = Inr s'"
  shows "loop_inv X y \<alpha> p0 (Suc n) s'"
proof -
  from step obtain p J where e: "epoch_spec X y \<alpha> (weights s) = Inr (p, J)"
    and s': "s' = (if n mod 100 = 0
            then \<lparr>weights = p, costs = costs s @ [J], printed = printed s @ [(n, J)]\<rparr>
            else s\<lparr>weights := p\<rparr>)"
    by (auto simp: epoch_body_spec bindE_def split: sum.splits)
  from inv have pa: "params_after X y \<alpha> p0 n = Inr (weights s)"
    and len: "length (costs s) = (n + 99) div 100"
    and cs: "\<forall>k<length (costs s). cost_at X y \<alpha> p0 (100 * k) = Inr (costs s ! k)"
    and pr: "printed s = map (\<lambda>k. (100 * k, costs s ! k)) [0..<length (costs s)]"
    by (simp_all add: loop_inv_def)
  have pa': "params_after X y \<alpha> p0 (Suc n) = Inr p"
    using pa e by simp
  have cn: "cost_at X y \<alpha> p0 n = Inr J"
    using pa e by (simp add: cost_at_def)
  show ?thesis
  proof (cases "n mod 100 = 0")
    case True
    then have n: "100 * length (costs s) = n"
      unfolding len by (rule sample_count_hit)
    have s'': "weights s' = p" "costs s' = costs s @ [J]" "printed s' = printed s @ [(n, J)]"
      using True s' by simp_all
    have 1: "length (costs s') = (Suc n + 99) div 100"
      unfolding s''(2) length_append_singleton len using True by (simp only: sample_count_hit)
    have 2: "\<forall>k<length (costs s'). cost_at X y \<alpha> p0 (100 * k) = Inr (costs s' ! k)"
      using cs cn n s'' by (auto simp: less_Suc_eq nth_append)
    have 3: "printed s' = map (\<lambda>k. (100 * k, costs s' ! k)) [0..<length (costs s')]"
      using pr n s'' by (simp add: nth_append)
    show ?thesis
      unfolding loop_inv_def using pa' s''(1) 1 2 3 by blast
  next
    case False
    then have s'': "weights s' = p" "costs s' = costs s" "printed s' = printed s"
      using s' by simp_all
    have 1: "length (costs s') = (Suc n + 99) div 100"
      unfolding s''(2) len using False by (rule sample_count_miss [symmetric])
    show ?thesis
      unfolding loop_inv_def using pa' s'' 1 cs pr by metis
  qed
qed

lemma loop_inv_init: "loop_inv X y \<alpha> p0 0 \<lparr>weights = p0, costs = [], printed = []\<rparr>"
  by (simp add: loop_inv_def)

lemma loop_returns:
  "for_range (epoch_body X y \<alpha>) [0..<n] \<lparr>weights = p0, costs = [], printed = []\<rparr> = Inr s
   \<Longrightarrow> loop_inv X y \<alpha> p0 n s"
proof (induction n arbitrary: s)
  case 0
  then have "s = \<lparr>weights = p0, costs = [], printed = []\<rparr>" by simp
  then show ?case by (simp only: loop_inv_init)
next
  case (Suc n)
  from Suc.prems obtain s1 where
    l: "for_range (epoch_body X y \<alpha>) [0..<n] \<lparr>weights = p0, costs = [], printed = []\<rparr> = Inr s1"
    and b: "epoch_body X y \<alpha> n s1 = Inr s"
    by (auto simp: for_range_snoc bindE_def split: sum.splits)
  from Suc.IH [OF l] b show ?case by (rule loop_inv_step)
qed

lemma loop_fails:
  "for_range (epoch_body X y \<alpha>) [0..<n] \<lparr>weights = p0, costs = [], printed = []\<rparr> = Inl e
   \<Longrightarrow> params_after X y \<alpha> p0 n = Inl e"
proof (induction n)
  case 0
  then show ?case by simp
next
  case (Suc n)
  let ?l = "for_range (epoch_body X y \<alpha>) [0..<n] \<lparr>weights = p0, costs = [], printed = []\<rparr>"
  show ?case
  proof (cases ?l)
    case (Inl e')
    with Suc.prems have "e' = e" by (simp add: for_range_snoc)
    with Inl Suc.IH show ?thesis by simp
  next
    case (Inr s1)
    then have pa: "params_after X y \<alpha> p0 n = Inr (weights s1)"
      using loop_returns by (simp add: loop_inv_def)
    from Inr Suc.prems have "epoch_body X y \<alpha> n s1 = Inl e"
      by (simp add: for_range_snoc)
    then have "epoch_spec X y \<alpha> (weights s1) = Inl e"
      by (auto simp: epoch_body_spec bindE_def split: sum.splits)
    with pa show ?thesis by simp
  qed
qed

lemma compute_cost_ok:
  assumes "shape0 y = shape0 A3" "shape1 y = shape1 A3"
  shows "\<exists>J. compute_cost_3layer A3 y = Inr J"
  using assms by (simp add: compute_cost_3layer_def Let_def np_multiply_same np_log_def np_add_mk)

lemma epoch_spec_ok:
  assumes "shape0 X = n0" "shape1 X = m" "shape0 y = n3" "shape1 y = m"
    and "params_shapes n0 n1 n2 n3 p"
  shows "\<exists>p' J. epoch_spec X y \<alpha> p = Inr (p', J) \<and> params_shapes n0 n1 n2 n3 p'"
proof -
  obtain W1 b1 W2 b2 W3 b3 where p: "p = (W1, b1, W2, b2, W3, b3)"
    by (metis prod.collapse)
  have sh: "shape0 W1 = n1" "shape1 W1 = n0" "shape0 b1 = n1" "shape1 b1 = 1"
    "shape0 W2 = n2" "shape1 W2 = n1" "shape0 b2 = n2" "shape1 b2 = 1"
    "shape0 W3 = n3" "shape1 W3 = n2" "shape0 b3 = n3" "shape1 b3 = 1"
    using assms(5) by (simp_all add: params_shapes_def p)
  let ?Z1 = "mk n1 m (pre_activation_spec W1 X b1)"
  let ?Z2 = "mk n2 m (pre_activation_spec W2 (relu ?Z1) b2)"
  let ?Z3 = "mk n3 m (pre_activation_spec W3 (relu ?Z2) b3)"
  have f: "forward_propagation_3layer X W1 b1 W2 b2 W3 b3 = Inr (relu ?Z1, relu ?Z2, sigmoid ?Z3)"
    using assms(1,2) sh by (rule forward_value)
  obtain J where c: "compute_cost_3layer (sigmoid ?Z3) y = Inr J"
    using compute_cost_ok [of y "sigmoid ?Z3"] assms(3,4) by auto
  let ?dZ3 = "dZ_out_spec (sigmoid ?Z3) y"
  let ?dZ2 = "dZ_hidden_spec W3 ?dZ3 (mask_of (relu ?Z2))"
  let ?dZ1 = "dZ_hidden_spec W2 ?dZ2 (mask_of (relu ?Z1))"
  let ?d = "(mk n1 n0 (dW_spec m ?dZ1 X), mk n1 1 (\<lambda>i j. db_spec m ?dZ1 i),
              mk n2 n1 (dW_spec m ?dZ2 (relu ?Z1)), mk n2 1 (\<lambda>i j. db_spec m ?dZ2 i),
              mk n3 n2 (dW_spec m ?dZ3 (relu ?Z2)), mk n3 1 (\<lambda>i j. db_spec m ?dZ3 i))"
  have b: "backward_propagation_3layer X y (relu ?Z1) (relu ?Z2) (sigmoid ?Z3) W2 W3 = Inr ?d"
    using assms(1-4) sh(5,6,9,10) by (simp add: backward_value)
  have "\<exists>p'. update_parameters_3layer (W1, b1, W2, b2, W3, b3) ?d \<alpha> = Inr p'
        \<and> params_shapes n0 n1 n2 n3 p'"
    using sh by (simp add: update_value params_shapes_def)
  then obtain p' where u: "update_parameters_3layer (W1, b1, W2, b2, W3, b3) ?d \<alpha> = Inr p'"
    and s': "params_shapes n0 n1 n2 n3 p'" by blast
  have "epoch_spec X y \<alpha> p = Inr (p', J)"
    by (simp only: epoch_spec_def p prod.case f bindE_Inr c b u)
  with s' show ?thesis by blast
qed

lemma params_after_ok:
  assumes "shape0 X = n0" "shape1 X = m" "shape0 y = n3" "shape1 y = m"
    and "params_shapes n0 n1 n2 n3 p0"
  shows "\<exists>p. params_after X y \<alpha> p0 n = Inr p \<and> params_shapes n0 n1 n2 n3 p"
proof (induction n)
  case 0
  then show ?case using assms(5) by simp
next
  case (Suc n)
  then obtain p where p: "params_after X y \<alpha> p0 n = Inr p" "params_shapes n0 n1 n2 n3 p"
    by blast
  from epoch_spec_ok [OF assms(1-4) p(2), of \<alpha>] obtain p' J where
    "epoch_spec X y \<alpha> p = Inr (p', J)" "params_shapes n0 n1 n2 n3 p'" by blast
  with p show ?case by simp
qed

lemma initialize_params_shapes:
  assumes "0 \<le> n_h1" "0 \<le> n_h2"
  shows "\<exists>p g'. initialize_parameters_3layer (int n0) n_h1 n_h2 (int n3) g = Inr (p, g')
           \<and> params_shapes n0 (nat n_h1) (nat n_h2) n3 p"
  using assms
  by (simp add: initialize_parameters_3layer_def randn_def np_zeros_def Let_def params_shapes_def)

lemma train_returns:
  assumes "shape1 y = shape1 X" "0 \<le> n_h1" "0 \<le> n_h2"
  shows "\<exists>r. train_three_layer X y n_h1 n_h2 \<alpha> epochs g = Inr r"
proof (cases "train_three_layer X y n_h1 n_h2 \<alpha> epochs g")
  case (Inr r)
  then show ?thesis by blast
next
  case (Inl e)
  let ?init = "initialize_parameters_3layer (int (shape0 X)) n_h1 n_h2 (int (shape0 y)) g"
  from initialize_params_shapes [OF assms(2,3), of "shape0 X" "shape0 y" g]
  obtain p0 g' where i: "?init = Inr (p0, g')"
    and s: "params_shapes (shape0 X) (nat n_h1) (nat n_h2) (shape0 y) p0" by blast
  let ?l = "for_range (epoch_body X y \<alpha>) [0..<nat epochs]
                \<lparr>weights = p0, costs = [], printed = []\<rparr>"
  from Inl i have "?l = Inl e"
    by (auto simp: train_three_layer_def Let_def bindE_def split: sum.splits)
  then have "params_after X y \<alpha> p0 (nat epochs) = Inl e" by (rule loop_fails)
  moreover from params_after_ok [OF refl refl refl assms(1) s, of \<alpha> "nat epochs"]
  obtain p where "params_after X y \<alpha> p0 (nat epochs) = Inr p" by blast
  ultimately show ?thesis by simp
qed

lemma train_result:
  assumes t: "train_three_layer X y n_h1 n_h2 \<alpha> epochs g = Inr ((p, cs), out, g')"
  shows "\<exists>p0. initialize_parameters_3layer (int (shape0 X)) n_h1 n_h2 (int (shape0 y)) g = Inr (p0, g')
         \<and> params_after X y \<alpha> p0 (nat epochs) = Inr p
         \<and> length cs = (nat epochs + 99) div 100
         \<and> (\<forall>k<length cs. cost_at X y \<alpha> p0 (100 * k) = Inr (cs ! k))
         \<and> out = map (\<lambda>k. (100 * k, cs ! k)) [0..<length cs]"
proof -
  let ?init = "initialize_parameters_3layer (int (shape0 X)) n_h1 n_h2 (int (shape0 y)) g"
  from t obtain p0 s where i: "?init = Inr (p0, g')"
    and l: "for_range (epoch_body X y \<alpha>) [0..<nat epochs]
              \<lparr>weights = p0, costs = [], printed = []\<rparr> = Inr s"
    and s: "weights s = p" "costs s = cs" "printed s = out"
    by (auto simp: train_three_layer_def Let_def bindE_def split: sum.splits prod.splits)
  from loop_returns [OF l] s i show ?thesis
    unfolding loop_inv_def by blast
qed

lemma train_failure:
  assumes t: "train_three_layer X y n_h1 n_h2 \<alpha> epochs g = Inl e"
  shows "initialize_parameters_3layer (int (shape0 X)) n_h1 n_h2 (int (shape0 y)) g = Inl e
      \<or> (\<exists>p0 g'. initialize_parameters_3layer (int (shape0 X)) n_h1 n_h2 (int (shape0 y)) g
                     = Inr (p0, g')
           \<and> params_after X y \<alpha> p0 (nat epochs) = Inl e)"
proof (cases "initialize_parameters_3layer (int (shape0 X)) n_h1 n_h2 (int (shape0 y)) g")
  case (Inl e')
  with t show ?thesis by (simp add: train_three_layer_def Let_def)
next
  case (Inr r)
  obtain p0 g1 where r: "r = (p0, g1)" by (cases r)
  from t Inr r have "for_range (epoch_body X y \<alpha>) [0..<nat epochs]
            \<lparr>weights = p0, costs = [], printed = []\<rparr> = Inl e"
    by (auto simp: train_three_layer_def Let_def bindE_def split: sum.splits)
  then have "params_after X y \<alpha> p0 (nat epochs) = Inl e" by (rule loop_fails)
  with Inr r show ?thesis by blast
qed

section \<open>The stages over the store\<close>

lemma unchanged_refl [simp]: "unchanged h h"
  by (simp add: unchanged_def)

lemma unchanged_snoc [simp]: "unchanged h (snoc h c)"
  by (simp add: unchanged_def snoc_def)

lemma unchanged_length: "unchanged h h' \<Longrightarrow> length h \<le> length h'"
  by (metis unchanged_def length_take min.cobounded1 min.commute)

lemma unchanged_trans: "unchanged h h1 \<Longrightarrow> unchanged h1 h2 \<Longrightarrow> unchanged h h2"
proof -
  assume a: "unchanged h h1" and b: "unchanged h1 h2"
  have "length h \<le> length h1" using a by (rule unchanged_length)
  then have "take (length h) h2 = take (length h) (take (length h1) h2)"
    by (simp add: min_def)
  also have "\<dots> = take (length h) h1" using b by (simp add: unchanged_def)
  also have "\<dots> = h" using a by (simp add: unchanged_def)
  finally show ?thesis by (simp add: unchanged_def)
qed

lemma unchanged_nth: "unchanged h h' \<Longrightarrow> r < length h \<Longrightarrow> h' ! r = h ! r"
  by (metis unchanged_def nth_take)

lemma allocates_only_returnS [intro!]: "allocates_only (returnS x)"
  by (simp add: allocates_only_def returnS_def)

lemma allocates_only_new1 [intro!]: "allocates_only (new1 f r)"
  by (simp add: allocates_only_def new1_def alloc_def)

lemma allocates_only_new2 [intro!]: "allocates_only (new2 f r1 r2)"
  by (auto simp: allocates_only_def new2_def alloc_def split: sum.splits)

lemma allocates_only_new_gt0 [intro!]: "allocates_only (new_gt0 r)"
  by (simp add: allocates_only_def new_gt0_def alloc_def)

lemma allocates_only_read_shape1 [intro!]: "allocates_only (read_shape1 r)"
  by (simp add: allocates_only_def read_shape1_def)

lemma allocates_only_read_sum [intro!]: "allocates_only (read_sum r)"
  by (simp add: allocates_only_def read_sum_def)

lemma allocates_only_bindS [intro!]:
  assumes "allocates_only m" "\<And>x. allocates_only (f x)"
  shows "allocates_only (bindS m f)"
  unfolding allocates_only_def
proof (intro allI impI)
  fix h y h'
  assume b: "bindS m f h = Inr (y, h')"
  then obtain x h1 where m: "m h = Inr (x, h1)" and f: "f x h1 = Inr (y, h')"
    by (auto simp: bindS_def split: sum.splits)
  from assms(1) m have "unchanged h h1" by (auto simp: allocates_only_def)
  moreover from assms(2) f have "unchanged h1 h'" by (auto simp: allocates_only_def)
  ultimately show "unchanged h h'" by (rule unchanged_trans)
qed

lemma compute_cost_allocates_only: "allocates_only (compute_cost_3layer_h A3 y)"
  unfolding compute_cost_3layer_h_def by (intro allocates_only_bindS allocates_only_returnS
      allocates_only_new1 allocates_only_new2 allocates_only_read_shape1 allocates_only_read_sum)

lemma backward_allocates_only:
  "allocates_only (backward_propagation_3layer_h X y A1 A2 A3 W2 W3)"
  unfolding backward_propagation_3layer_h_def by (intro allocates_only_bindS allocates_only_returnS
      allocates_only_new1 allocates_only_new2 allocates_only_new_gt0 allocates_only_read_shape1)

lemma update_allocates_only: "allocates_only (update_parameters_3layer_h p d \<alpha>)"
  unfolding update_parameters_3layer_h_def
  by (cases p, cases d) (auto intro!: allocates_only_bindS)

lemma length_snoc [simp]: "length (snoc h c) = Suc (length h)"
  by (simp add: snoc_def)

lemma deref_snoc [simp]:
  "r \<le> length h \<Longrightarrow> deref (snoc h c) r = (if r = length h then as_float c else deref h r)"
  by (simp add: deref_def snoc_def nth_append)

lemma as_float_Floats [simp]: "as_float (Floats A) = A"
  by (simp add: as_float_def)

lemma as_float_Bools [simp]: "as_float (Bools B) = map_nd of_bool B"
  by (simp add: as_float_def)

lemma bindS_new1 [simp]:
  "bindS (new1 f r) k h = k (length h) (snoc h (Floats (f (deref h r))))"
  by (simp add: bindS_def new1_def alloc_def)

lemma bindS_new2 [simp]:
  "bindS (new2 f r1 r2) k h =
     (case f (deref h r1) (deref h r2) of
        Inl e \<Rightarrow> Inl e
      | Inr A \<Rightarrow> k (length h) (snoc h (Floats A)))"
  by (simp add: bindS_def new2_def alloc_def split: sum.splits)

lemma bindS_new_gt0 [simp]:
  "bindS (new_gt0 r) k h = k (length h) (snoc h (Bools (gt0 (deref h r))))"
  by (simp add: bindS_def new_gt0_def alloc_def)

lemma bindS_read_shape1 [simp]: "bindS (read_shape1 r) k h = k (shape1 (deref h r)) h"
  by (simp add: bindS_def read_shape1_def)

lemma bindS_read_sum [simp]: "bindS (read_sum r) k h = k (np_sum (deref h r)) h"
  by (simp add: bindS_def read_sum_def)

lemma update_h_refines:
  assumes "valid6 h p" "valid6 h d"
  shows "case update_parameters_3layer (deref6 h p) (deref6 h d) \<alpha> of
           Inl e \<Rightarrow> update_parameters_3layer_h p d \<alpha> h = Inl e
         | Inr v \<Rightarrow> \<exists>p' h'. update_parameters_3layer_h p d \<alpha> h = Inr (p', h')
                      \<and> deref6 h' p' = v \<and> fresh6 h p' \<and> valid6 h' p'"
  using assms
  by (cases p, cases d)
     (simp add: update_parameters_3layer_h_def update_parameters_3layer_def returnS_def
        deref6_def valid6_def fresh6_def bindE_def split: sum.splits)

lemma bidx_less: "bdim a b = Inr r \<Longrightarrow> i < r \<Longrightarrow> bidx b i < b"
  by (auto simp: bdim_def bidx_def split: if_splits)

lemma np_multiply_of_bool: "np_multiply Q (map_nd of_bool B) = np_multiply_bool Q B"
proof (cases "bdim (shape0 Q) (shape0 B)")
  case (Inl e)
  then show ?thesis by (simp add: np_multiply_def np_multiply_bool_def broadcast2_def)
next
  case r: (Inr r)
  show ?thesis
  proof (cases "bdim (shape1 Q) (shape1 B)")
    case (Inl e)
    then show ?thesis using r by (simp add: np_multiply_def np_multiply_bool_def broadcast2_def)
  next
    case c: (Inr c)
    show ?thesis
      using r c
      by (auto simp: np_multiply_def np_multiply_bool_def broadcast2_def bidx_less
          intro!: mk_cong)
  qed
qed

lemma compute_cost_h_refines:
  assumes "A3 < length h" "y < length h"
  shows "case compute_cost_3layer (deref h A3) (deref h y) of
           Inl e \<Rightarrow> compute_cost_3layer_h A3 y h = Inl e
         | Inr J \<Rightarrow> \<exists>h'. compute_cost_3layer_h A3 y h = Inr (J, h')"
  using assms
  by (simp add: compute_cost_3layer_h_def compute_cost_3layer_def returnS_def Let_def
      bindE_def split: sum.splits)

lemma backward_h_refines:
  assumes "X < length h" "y < length h" "A1 < length h" "A2 < length h" "A3 < length h"
    "W2 < length h" "W3 < length h"
  shows "case backward_propagation_3layer (deref h X) (deref h y) (deref h A1) (deref h A2)
                (deref h A3) (deref h W2) (deref h W3) of
           Inl e \<Rightarrow> backward_propagation_3layer_h X y A1 A2 A3 W2 W3 h = Inl e
         | Inr v \<Rightarrow> \<exists>d h'. backward_propagation_3layer_h X y A1 A2 A3 W2 W3 h = Inr (d, h')
                      \<and> deref6 h' d = v \<and> fresh6 h d \<and> valid6 h' d"
  using assms
  by (simp add: backward_propagation_3layer_h_def backward_propagation_3layer_def returnS_def
      Let_def deref6_def valid6_def fresh6_def bindE_def np_multiply_of_bool split: sum.splits)

lemma update_sub_scaled:
  assumes "same_shape dW1 W1" "same_shape db1 b1" "same_shape dW2 W2" "same_shape db2 b2"
    "same_shape dW3 W3" "same_shape db3 b3"
  shows "update_parameters_3layer (W1, b1, W2, b2, W3, b3) (dW1, db1, dW2, db2, dW3, db3) \<alpha> =
    Inr (sub_scaled \<alpha> W1 dW1, sub_scaled \<alpha> b1 db1, sub_scaled \<alpha> W2 dW2, sub_scaled \<alpha> b2 db2,
         sub_scaled \<alpha> W3 dW3, sub_scaled \<alpha> b3 db3)"
  using assms unfolding same_shape_def sub_scaled_def by (intro update_value) simp_all

lemma update_h_returns:
  assumes "valid6 h p" "valid6 h d"
    and "update_parameters_3layer_h p d \<alpha> h = Inr (p', h')"
  shows "unchanged h h' \<and> fresh6 h p' \<and> valid6 h' p'
       \<and> update_parameters_3layer (deref6 h p) (deref6 h d) \<alpha> = Inr (deref6 h' p')"
proof -
  have u: "unchanged h h'"
    using update_allocates_only assms(3) unfolding allocates_only_def by blast
  from update_h_refines [OF assms(1,2), of \<alpha>] assms(3) u show ?thesis
    by (auto split: sum.splits)
qed

lemma backward_h_returns:
  assumes "X < length h" "y < length h" "A1 < length h" "A2 < length h" "A3 < length h"
    "W2 < length h" "W3 < length h"
    and "backward_propagation_3layer_h X y A1 A2 A3 W2 W3 h = Inr (d, h')"
  shows "unchanged h h' \<and> fresh6 h d \<and> valid6 h' d
       \<and> backward_propagation_3layer (deref h X) (deref h y) (deref h A1) (deref h A2)
            (deref h A3) (deref h W2) (deref h W3) = Inr (deref6 h' d)"
proof -
  have u: "unchanged h h'"
    using backward_allocates_only assms(8) unfolding allocates_only_def by blast
  from backward_h_refines [OF assms(1-7)] assms(8) u show ?thesis
    by (auto split: sum.splits)
qed

lemma compute_cost_h_returns:
  assumes "A3 < length h" "y < length h"
    and "compute_cost_3layer_h A3 y h = Inr (J, h')"
  shows "unchanged h h' \<and> compute_cost_3layer (deref h A3) (deref h y) = Inr J"
proof -
  have u: "unchanged h h'"
    using compute_cost_allocates_only assms(3) unfolding allocates_only_def by blast
  from compute_cost_h_refines [OF assms(1,2)] assms(3) u show ?thesis
    by (auto split: sum.splits)
qed

lemma update_updated_spec:
  assumes "same_shapes6 D P"
  shows "update_parameters_3layer P D \<alpha> = Inr (updated_spec \<alpha> P D)"
proof -
  obtain W1 b1 W2 b2 W3 b3 where P: "P = (W1, b1, W2, b2, W3, b3)" by (metis prod.collapse)
  obtain dW1 db1 dW2 db2 dW3 db3 where D: "D = (dW1, db1, dW2, db2, dW3, db3)"
    by (metis prod.collapse)
  show ?thesis
    using assms unfolding P D same_shapes6_def updated_spec_def
    by (simp add: update_sub_scaled)
qed

section \<open>One epoch on arrays of matching shapes\<close>

lemma epoch_stages:
  assumes "shape0 X = n0" "shape1 X = m" "shape0 y = n3" "shape1 y = m"
    and "shape0 W1 = n1" "shape1 W1 = n0" "shape0 b1 = n1" "shape1 b1 = 1"
    and "shape0 W2 = n2" "shape1 W2 = n1" "shape0 b2 = n2" "shape1 b2 = 1"
    and "shape0 W3 = n3" "shape1 W3 = n2" "shape0 b3 = n3" "shape1 b3 = 1"
    and w: "weights s = (W1, b1, W2, b2, W3, b3)"
  defines "Z1 \<equiv> mk n1 m (pre_activation_spec W1 X b1)"
  defines "Z2 \<equiv> mk n2 m (pre_activation_spec W2 (relu Z1) b2)"
  defines "Z3 \<equiv> mk n3 m (pre_activation_spec W3 (relu Z2) b3)"
  shows "\<exists>J d s'. compute_cost_3layer (sigmoid Z3) y = Inr J
         \<and> backward_propagation_3layer X y (relu Z1) (relu Z2) (sigmoid Z3) W2 W3 = Inr d
         \<and> update_parameters_3layer (W1, b1, W2, b2, W3, b3) d \<alpha> = Inr (weights s')
         \<and> epoch_body X y \<alpha> i s = Inr s'"
proof -
  have f: "forward_propagation_3layer X W1 b1 W2 b2 W3 b3 = Inr (relu Z1, relu Z2, sigmoid Z3)"
    unfolding Z1_def Z2_def Z3_def using assms(1,2,5-16) by (rule forward_value)
  obtain J where c: "compute_cost_3layer (sigmoid Z3) y = Inr J"
    using compute_cost_ok [of y "sigmoid Z3"] assms(3,4) by (auto simp: Z3_def)
  let ?dZ3 = "dZ_out_spec (sigmoid Z3) y"
  let ?dZ2 = "dZ_hidden_spec W3 ?dZ3 (mask_of (relu Z2))"
  let ?dZ1 = "dZ_hidden_spec W2 ?dZ2 (mask_of (relu Z1))"
  let ?d = "(mk n1 n0 (dW_spec m ?dZ1 X), mk n1 1 (\<lambda>i j. db_spec m ?dZ1 i),
              mk n2 n1 (dW_spec m ?dZ2 (relu Z1)), mk n2 1 (\<lambda>i j. db_spec m ?dZ2 i),
              mk n3 n2 (dW_spec m ?dZ3 (relu Z2)), mk n3 1 (\<lambda>i j. db_spec m ?dZ3 i))"
  have b: "backward_propagation_3layer X y (relu Z1) (relu Z2) (sigmoid Z3) W2 W3 = Inr ?d"
    using assms(1-4,9,10,13,14) by (simp add: backward_value Z1_def Z2_def Z3_def)
  have "\<exists>p'. update_parameters_3layer (W1, b1, W2, b2, W3, b3) ?d \<alpha> = Inr p'"
    using assms(5-16) by (simp add: update_value)
  then obtain p' where u: "update_parameters_3layer (W1, b1, W2, b2, W3, b3) ?d \<alpha> = Inr p'"
    by blast
  let ?s' = "if i mod 100 = 0
             then \<lparr>weights = p', costs = costs s @ [J], printed = printed s @ [(i, J)]\<rparr>
             else s\<lparr>weights := p'\<rparr>"
  have e: "epoch_body X y \<alpha> i s = Inr ?s'"
    by (simp only: epoch_body_def w prod.case f bindE_Inr c b u)
  have "weights ?s' = p'" by simp
  with c b u e show ?thesis by metis
qed

lemma forward_depends_on_relu:
  assumes "shape0 X = n0" "shape1 X = m"
    and "shape0 W1 = n1" "shape1 W1 = n0" "shape0 b1 = n1" "shape1 b1 = 1"
    and "shape0 W2 = n2" "shape1 W2 = n1" "shape0 b2 = n2" "shape1 b2 = 1"
    and "shape0 W3 = n3" "shape1 W3 = n2" "shape0 b3 = n3" "shape1 b3 = 1"
    and "shape0 X' = n0'" "shape1 X' = m"
    and "shape0 W1' = n1" "shape1 W1' = n0'" "shape0 b1' = n1" "shape1 b1' = 1"
    and r: "relu (mk n1 m (pre_activation_spec W1' X' b1')) = relu (mk n1 m (pre_activation_spec W1 X b1))"
  shows "forward_propagation_3layer X' W1' b1' W2 b2 W3 b3
         = forward_propagation_3layer X W1 b1 W2 b2 W3 b3"
proof -
  note a = forward_value [OF assms(1-14)]
  note b = forward_value [OF assms(15-20) assms(7-14)]
  show ?thesis unfolding a b r by (rule refl)
qed

section \<open>The claims\<close>

text \<open>
  Claim C1. For a forward cache \<open>A1, A2, A3\<close> and labels \<open>y\<close> of matching shapes
  (\<open>m > 0\<close> samples), \<^verbatim>\<open>backward_propagation_3layer\<close> returns gradients with the
  closed forms of the specification: with \<open>dZ3 = A3 - y\<close> at the output layer, and the
  \<open>dZ\<close> of a hidden layer as the code forms it (the mask read off the post-activation),
  every weight gradient is \<open>(1/m) \<cdot> dZ \<cdot> A_prev\<^sup>T\<close> and every bias gradient is one
  column holding \<open>(1/m)\<close> times the sum of each row of \<open>dZ\<close>. The code divides by
  \<open>m\<close> where the specification multiplies by \<open>1/m\<close>; over the reals these agree.
\<close>

theorem backward_propagation_closed_forms:
  assumes "shape0 X = n0" "shape1 X = m" "shape0 y = n3" "shape1 y = m"
    and "shape0 A1 = n1" "shape1 A1 = m" "shape0 A2 = n2" "shape1 A2 = m"
    and "shape0 A3 = n3" "shape1 A3 = m"
    and "shape0 W2 = n2" "shape1 W2 = n1" "shape0 W3 = n3" "shape1 W3 = n2"
    and "0 < m"
  defines "dZ3 \<equiv> dZ_out_spec A3 y"
  defines "dZ2 \<equiv> dZ_hidden_spec W3 dZ3 (mask_of A2)"
  defines "dZ1 \<equiv> dZ_hidden_spec W2 dZ2 (mask_of A1)"
  shows "\<exists>dW1 db1 dW2 db2 dW3 db3.
           backward_propagation_3layer X y A1 A2 A3 W2 W3 = Inr (dW1, db1, dW2, db2, dW3, db3)
         \<and> (\<forall>i<n3. \<forall>j<n2. entry dW3 i j = dW_spec m dZ3 A2 i j)
         \<and> (\<forall>i<n2. \<forall>j<n1. entry dW2 i j = dW_spec m dZ2 A1 i j)
         \<and> (\<forall>i<n1. \<forall>j<n0. entry dW1 i j = dW_spec m dZ1 X i j)
         \<and> shape0 db3 = n3 \<and> shape1 db3 = 1 \<and> (\<forall>i<n3. entry db3 i 0 = db_spec m dZ3 i)
         \<and> shape0 db2 = n2 \<and> shape1 db2 = 1 \<and> (\<forall>i<n2. entry db2 i 0 = db_spec m dZ2 i)
         \<and> shape0 db1 = n1 \<and> shape1 db1 = 1 \<and> (\<forall>i<n1. entry db1 i 0 = db_spec m dZ1 i)"
proof -
  have "backward_propagation_3layer X y A1 A2 A3 W2 W3 =
         Inr (mk n1 n0 (dW_spec m dZ1 X), mk n1 1 (\<lambda>i j. db_spec m dZ1 i),
              mk n2 n1 (dW_spec m dZ2 A1), mk n2 1 (\<lambda>i j. db_spec m dZ2 i),
              mk n3 n2 (dW_spec m dZ3 A2), mk n3 1 (\<lambda>i j. db_spec m dZ3 i))"
    unfolding dZ1_def dZ2_def dZ3_def using assms(1-14) by (rule backward_value)
  then show ?thesis by simp
qed

theorem backward_propagation_closed_forms_witness:
  "\<exists>dW1 db1 dW2 db2 dW3 db3.
     backward_propagation_3layer
       \<lparr>shape0 = 1, shape1 = 2, rows = [[1, 2]]\<rparr> \<lparr>shape0 = 1, shape1 = 2, rows = [[1, 0]]\<rparr>
       \<lparr>shape0 = 1, shape1 = 2, rows = [[1, 0]]\<rparr> \<lparr>shape0 = 1, shape1 = 2, rows = [[2, 0]]\<rparr>
       \<lparr>shape0 = 1, shape1 = 2, rows = [[1 / 2, 1 / 2]]\<rparr>
       \<lparr>shape0 = 1, shape1 = 1, rows = [[1]]\<rparr> \<lparr>shape0 = 1, shape1 = 1, rows = [[3]]\<rparr>
       = Inr (dW1, db1, dW2, db2, dW3, db3)
     \<and> entry dW3 0 0 = - 1 / 2 \<and> entry db3 0 0 = 0
     \<and> entry dW2 0 0 = - 3 / 4 \<and> entry db2 0 0 = - 3 / 4
     \<and> entry dW1 0 0 = - 3 / 4 \<and> entry db1 0 0 = - 3 / 4"
proof -
  let ?X = "\<lparr>shape0 = 1, shape1 = 2, rows = [[1, 2::real]]\<rparr>"
  let ?y = "\<lparr>shape0 = 1, shape1 = 2, rows = [[1, 0::real]]\<rparr>"
  let ?A1 = "\<lparr>shape0 = 1, shape1 = 2, rows = [[1, 0::real]]\<rparr>"
  let ?A2 = "\<lparr>shape0 = 1, shape1 = 2, rows = [[2, 0::real]]\<rparr>"
  let ?A3 = "\<lparr>shape0 = 1, shape1 = 2, rows = [[1 / 2, 1 / 2::real]]\<rparr>"
  let ?W2 = "\<lparr>shape0 = 1, shape1 = 1, rows = [[1::real]]\<rparr>"
  let ?W3 = "\<lparr>shape0 = 1, shape1 = 1, rows = [[3::real]]\<rparr>"
  from backward_propagation_closed_forms [of ?X 1 2 ?y 1 ?A1 1 ?A2 1 ?A3 ?W2 ?W3]
  obtain dW1 db1 dW2 db2 dW3 db3 where
    "backward_propagation_3layer ?X ?y ?A1 ?A2 ?A3 ?W2 ?W3 = Inr (dW1, db1, dW2, db2, dW3, db3)"
    "entry dW3 0 0 = dW_spec 2 (dZ_out_spec ?A3 ?y) ?A2 0 0"
    "entry db3 0 0 = db_spec 2 (dZ_out_spec ?A3 ?y) 0"
    "entry dW2 0 0 = dW_spec 2 (dZ_hidden_spec ?W3 (dZ_out_spec ?A3 ?y) (mask_of ?A2)) ?A1 0 0"
    "entry db2 0 0 = db_spec 2 (dZ_hidden_spec ?W3 (dZ_out_spec ?A3 ?y) (mask_of ?A2)) 0"
    "entry dW1 0 0 = dW_spec 2 (dZ_hidden_spec ?W2
        (dZ_hidden_spec ?W3 (dZ_out_spec ?A3 ?y) (mask_of ?A2)) (mask_of ?A1)) ?X 0 0"
    "entry db1 0 0 = db_spec 2 (dZ_hidden_spec ?W2
        (dZ_hidden_spec ?W3 (dZ_out_spec ?A3 ?y) (mask_of ?A2)) (mask_of ?A1)) 0"
    by auto
  then show ?thesis by (simp add: spec_eval)
qed

text \<open>
  Claim C2. The code takes the mask of a hidden layer from the post-activation
  (\<^verbatim>\<open>A2 > 0\<close>, \<^verbatim>\<open>A1 > 0\<close>), not from the pre-activation. In an epoch the arrays
  \<open>A1, A2\<close> handed to the backward step are those of the forward pass, and there the
  mask the product \<^verbatim>\<open>np.dot(...) * (A > 0)\<close> applies is \<open>ReLU'\<close> of the pre-activation:
  1 exactly where \<open>Z > 0\<close>, 0 elsewhere; so the gradients the backward step returns
  are those of the specification's \<open>dZ = (W\<^sup>T \<cdot> dZ') \<odot> ReLU'(Z)\<close>. On the
  pre-activations \<open>-1, 0, 1\<close> the mask is \<open>0, 0, 1\<close>.
\<close>

theorem relu_derivative_mask:
  assumes "shape0 X = n0" "shape1 X = m" "shape0 y = n3" "shape1 y = m"
    and "shape0 W1 = n1" "shape1 W1 = n0" "shape0 b1 = n1" "shape1 b1 = 1"
    and "shape0 W2 = n2" "shape1 W2 = n1" "shape0 b2 = n2" "shape1 b2 = 1"
    and "shape0 W3 = n3" "shape1 W3 = n2" "shape0 b3 = n3" "shape1 b3 = 1"
    and "forward_propagation_3layer X W1 b1 W2 b2 W3 b3 = Inr (A1, A2, A3)"
    and "shape0 Q1 = n1" "shape1 Q1 = m" "shape0 Q2 = n2" "shape1 Q2 = m"
  defines "dZ3 \<equiv> dZ_out_spec A3 y"
  defines "dZ2 \<equiv> dZ_hidden_spec W3 dZ3 (\<lambda>i k. relu_prime_spec (pre_activation_spec W2 A1 b2 i k))"
  defines "dZ1 \<equiv> dZ_hidden_spec W2 dZ2 (\<lambda>i k. relu_prime_spec (pre_activation_spec W1 X b1 i k))"
  shows "np_multiply_bool Q1 (gt0 A1)
           = Inr (mk n1 m (\<lambda>i k. entry Q1 i k * relu_prime_spec (pre_activation_spec W1 X b1 i k)))
       \<and> np_multiply_bool Q2 (gt0 A2)
           = Inr (mk n2 m (\<lambda>i k. entry Q2 i k * relu_prime_spec (pre_activation_spec W2 A1 b2 i k)))
       \<and> backward_propagation_3layer X y A1 A2 A3 W2 W3
           = Inr (mk n1 n0 (dW_spec m dZ1 X), mk n1 1 (\<lambda>i j. db_spec m dZ1 i),
                  mk n2 n1 (dW_spec m dZ2 A1), mk n2 1 (\<lambda>i j. db_spec m dZ2 i),
                  mk n3 n2 (dW_spec m dZ3 A2), mk n3 1 (\<lambda>i j. db_spec m dZ3 i))
       \<and> np_multiply_bool \<lparr>shape0 = 1, shape1 = 3, rows = [[1, 1, 1]]\<rparr>
            (gt0 (relu \<lparr>shape0 = 1, shape1 = 3, rows = [[-1, 0, 1]]\<rparr>))
           = Inr \<lparr>shape0 = 1, shape1 = 3, rows = [[0, 0, 1]]\<rparr>"
proof -
  let ?Z1 = "mk n1 m (pre_activation_spec W1 X b1)"
  let ?Z2 = "mk n2 m (pre_activation_spec W2 (relu ?Z1) b2)"
  have a: "A1 = relu ?Z1" "A2 = relu ?Z2"
    using forward_value [OF assms(1,2,5-16)] assms(17) by simp_all
  have 1: "np_multiply_bool Q1 (gt0 A1)
           = Inr (mk n1 m (\<lambda>i k. entry Q1 i k * relu_prime_spec (pre_activation_spec W1 X b1 i k)))"
    unfolding a using assms(18,19)
    by (auto simp: np_multiply_bool_gt0 mask_of_relu intro!: mk_cong)
  have 2: "np_multiply_bool Q2 (gt0 A2)
           = Inr (mk n2 m (\<lambda>i k. entry Q2 i k * relu_prime_spec (pre_activation_spec W2 A1 b2 i k)))"
    unfolding a using assms(20,21)
    by (auto simp: np_multiply_bool_gt0 mask_of_relu intro!: mk_cong)
  have 3: "backward_propagation_3layer X y A1 A2 A3 W2 W3
           = Inr (mk n1 n0 (dW_spec m dZ1 X), mk n1 1 (\<lambda>i j. db_spec m dZ1 i),
                  mk n2 n1 (dW_spec m dZ2 A1), mk n2 1 (\<lambda>i j. db_spec m dZ2 i),
                  mk n3 n2 (dW_spec m dZ3 A2), mk n3 1 (\<lambda>i j. db_spec m dZ3 i))"
    unfolding dZ1_def dZ2_def dZ3_def using assms(1-17) by (rule backward_after_forward)
  have 4: "np_multiply_bool \<lparr>shape0 = 1, shape1 = 3, rows = [[1, 1, 1]]\<rparr>
            (gt0 (relu \<lparr>shape0 = 1, shape1 = 3, rows = [[-1, 0, 1]]\<rparr>))
           = Inr \<lparr>shape0 = 1, shape1 = 3, rows = [[0, 0, 1]]\<rparr>"
    by (simp add: np_multiply_bool_def broadcast2_def bdim_def bidx_def gt0_def relu_def
        map_nd_def mk_def entry_def numeral_3_eq_3)
  from 1 2 3 4 show ?thesis by (simp only: simp_thms)
qed

theorem relu_derivative_mask_witness:
  "np_multiply_bool \<lparr>shape0 = 1, shape1 = 2, rows = [[7, 7]]\<rparr>
     (gt0 (relu \<lparr>shape0 = 1, shape1 = 2, rows = [[0, 4]]\<rparr>))
   = Inr \<lparr>shape0 = 1, shape1 = 2, rows = [[0, 7]]\<rparr>
   \<and> (\<exists>A2 A3 d.
        forward_propagation_3layer \<lparr>shape0 = 1, shape1 = 2, rows = [[0, 2]]\<rparr>
          \<lparr>shape0 = 1, shape1 = 1, rows = [[2]]\<rparr> \<lparr>shape0 = 1, shape1 = 1, rows = [[0]]\<rparr>
          \<lparr>shape0 = 1, shape1 = 1, rows = [[2]]\<rparr> \<lparr>shape0 = 1, shape1 = 1, rows = [[0]]\<rparr>
          \<lparr>shape0 = 1, shape1 = 1, rows = [[2]]\<rparr> \<lparr>shape0 = 1, shape1 = 1, rows = [[0]]\<rparr>
        = Inr (relu \<lparr>shape0 = 1, shape1 = 2, rows = [[0, 4]]\<rparr>, A2, A3)
      \<and> backward_propagation_3layer \<lparr>shape0 = 1, shape1 = 2, rows = [[0, 2]]\<rparr>
          \<lparr>shape0 = 1, shape1 = 2, rows = [[1, 0]]\<rparr>
          (relu \<lparr>shape0 = 1, shape1 = 2, rows = [[0, 4]]\<rparr>) A2 A3
          \<lparr>shape0 = 1, shape1 = 1, rows = [[2]]\<rparr> \<lparr>shape0 = 1, shape1 = 1, rows = [[2]]\<rparr>
        = Inr d)"
proof -
  let ?X = "\<lparr>shape0 = 1, shape1 = 2, rows = [[0, 2::real]]\<rparr>"
  let ?y = "\<lparr>shape0 = 1, shape1 = 2, rows = [[1, 0::real]]\<rparr>"
  let ?W = "\<lparr>shape0 = 1, shape1 = 1, rows = [[2::real]]\<rparr>"
  let ?b = "\<lparr>shape0 = 1, shape1 = 1, rows = [[0::real]]\<rparr>"
  let ?Q = "\<lparr>shape0 = 1, shape1 = 2, rows = [[7, 7::real]]\<rparr>"
  let ?A1 = "relu \<lparr>shape0 = 1, shape1 = 2, rows = [[0, 4::real]]\<rparr>"
  have f: "\<exists>A2 A3. forward_propagation_3layer ?X ?W ?b ?W ?b ?W ?b = Inr (?A1, A2, A3)"
    by (simp add: forward_propagation_3layer_def np_dot_def np_add_def broadcast2_def bdim_def
        bidx_def map_nd_def relu_def mk_def entry_def Let_def numeral_2_eq_2)
  then obtain A2 A3 where
    f': "forward_propagation_3layer ?X ?W ?b ?W ?b ?W ?b = Inr (?A1, A2, A3)" by blast
  have sh: "shape0 ?X = 1" "shape1 ?X = 2" "shape0 ?y = 1" "shape1 ?y = 2"
    "shape0 ?W = 1" "shape1 ?W = 1" "shape0 ?b = 1" "shape1 ?b = 1"
    "shape0 ?W = 1" "shape1 ?W = 1" "shape0 ?b = 1" "shape1 ?b = 1"
    "shape0 ?W = 1" "shape1 ?W = 1" "shape0 ?b = 1" "shape1 ?b = 1"
    by simp_all
  have q: "shape0 ?Q = 1" "shape1 ?Q = 2" "shape0 ?Q = 1" "shape1 ?Q = 2"
    by simp_all
  note r = relu_derivative_mask [OF sh f' q]
  from r have "np_multiply_bool ?Q (gt0 ?A1)
        = Inr (mk 1 2 (\<lambda>i k. entry ?Q i k * relu_prime_spec (pre_activation_spec ?W ?X ?b i k)))"
    by (rule conjunct1)
  then have 1: "np_multiply_bool ?Q (gt0 ?A1) = Inr \<lparr>shape0 = 1, shape1 = 2, rows = [[0, 7]]\<rparr>"
    by (simp add: spec_eval mk_def)
  from r have "\<exists>d. backward_propagation_3layer ?X ?y ?A1 A2 A3 ?W ?W = Inr d"
    by blast
  with 1 f' show ?thesis by blast
qed

text \<open>
  Claim C3. \<^verbatim>\<open>train_three_layer\<close> initialises the parameters and runs
  \<^verbatim>\<open>range(epochs)\<close> iterations, each one forward propagation, cost, backward
  propagation and update on the parameters the previous iteration left. If it returns,
  it returns the parameters after exactly \<open>epochs\<close> epochs and the list
  \<^verbatim>\<open>costs\<close>, which has one entry for every 100th epoch: entry \<open>k\<close> (counted from
  0) is the cost computed in epoch \<open>100 \<cdot> k\<close>, from the forward pass on the
  parameters before that epoch's update; the printed lines carry the same pairs. It
  raises only if the initialisation or one of the epochs raises, and on an input whose
  \<open>X\<close> and \<open>y\<close> have the same number of columns, with non-negative hidden widths, it
  returns.
\<close>

theorem train_three_layer_epochs:
  "(train_three_layer X y n_h1 n_h2 \<alpha> epochs g = Inr ((p, cs), out, g') \<longrightarrow>
      (\<exists>p0. initialize_parameters_3layer (int (shape0 X)) n_h1 n_h2 (int (shape0 y)) g = Inr (p0, g')
         \<and> params_after X y \<alpha> p0 (nat epochs) = Inr p
         \<and> length cs = (nat epochs + 99) div 100
         \<and> (\<forall>k<length cs. cost_at X y \<alpha> p0 (100 * k) = Inr (cs ! k))
         \<and> out = map (\<lambda>k. (100 * k, cs ! k)) [0..<length cs]))
   \<and> (train_three_layer X y n_h1 n_h2 \<alpha> epochs g = Inl e \<longrightarrow>
      initialize_parameters_3layer (int (shape0 X)) n_h1 n_h2 (int (shape0 y)) g = Inl e
      \<or> (\<exists>p0 g'. initialize_parameters_3layer (int (shape0 X)) n_h1 n_h2 (int (shape0 y)) g
                     = Inr (p0, g')
           \<and> params_after X y \<alpha> p0 (nat epochs) = Inl e))
   \<and> (shape1 y = shape1 X \<and> 0 \<le> n_h1 \<and> 0 \<le> n_h2 \<longrightarrow>
      (\<exists>r. train_three_layer X y n_h1 n_h2 \<alpha> epochs g = Inr r))"
  using train_result [of X y n_h1 n_h2 \<alpha> epochs g p cs out g']
    train_failure [of X y n_h1 n_h2 \<alpha> epochs g e]
    train_returns [of y X n_h1 n_h2 \<alpha> epochs g]
  by blast

theorem train_three_layer_epochs_witness:
  "\<exists>p cs out g'.
     train_three_layer \<lparr>shape0 = 1, shape1 = 1, rows = [[1]]\<rparr> \<lparr>shape0 = 1, shape1 = 1, rows = [[1]]\<rparr>
       1 1 1 2 (\<lambda>k. 0) = Inr ((p, cs), out, g')
     \<and> cs = [- ln (1 / 2)] \<and> out = [(0, - ln (1 / 2))]
     \<and> params_after \<lparr>shape0 = 1, shape1 = 1, rows = [[1]]\<rparr> \<lparr>shape0 = 1, shape1 = 1, rows = [[1]]\<rparr> 1
         (\<lparr>shape0 = 1, shape1 = 1, rows = [[0]]\<rparr>, \<lparr>shape0 = 1, shape1 = 1, rows = [[0]]\<rparr>,
          \<lparr>shape0 = 1, shape1 = 1, rows = [[0]]\<rparr>, \<lparr>shape0 = 1, shape1 = 1, rows = [[0]]\<rparr>,
          \<lparr>shape0 = 1, shape1 = 1, rows = [[0]]\<rparr>, \<lparr>shape0 = 1, shape1 = 1, rows = [[0]]\<rparr>) 2
       = Inr p"
proof -
  let ?i = "\<lparr>shape0 = 1, shape1 = 1, rows = [[1::real]]\<rparr>"
  let ?o = "\<lparr>shape0 = 1, shape1 = 1, rows = [[0::real]]\<rparr>"
  let ?p0 = "(?o, ?o, ?o, ?o, ?o, ?o)"
  let ?g = "\<lambda>k::nat. 0::real"
  let ?T = "train_three_layer ?i ?i 1 1 1 2 ?g"
  have init: "initialize_parameters_3layer (int (shape0 ?i)) 1 1 (int (shape0 ?i)) ?g = Inr (?p0, ?g)"
    by (simp add: initialize_parameters_3layer_def code_eval)
  have c0: "cost_at ?i ?i 1 ?p0 0 = Inr (- ln (1 / 2))"
    by (simp add: cost_at_def epoch_spec_def stage_defs code_eval)
  have "\<exists>r. ?T = Inr r"
    using train_three_layer_epochs [of ?i ?i 1 1 1 2 ?g ?p0 "[]" "[]" ?g ValueError] by simp
  then obtain r where "?T = Inr r" ..
  then obtain p cs out g' where t: "?T = Inr ((p, cs), out, g')"
    by (metis prod.collapse)
  with train_three_layer_epochs [of ?i ?i 1 1 1 2 ?g p cs out g' ValueError] obtain p0 where
    "initialize_parameters_3layer (int (shape0 ?i)) 1 1 (int (shape0 ?i)) ?g = Inr (p0, g')"
    and pa: "params_after ?i ?i 1 p0 (nat 2) = Inr p"
    and len: "length cs = (nat 2 + 99) div 100"
    and cs: "\<forall>k<length cs. cost_at ?i ?i 1 p0 (100 * k) = Inr (cs ! k)"
    and out: "out = map (\<lambda>k. (100 * k, cs ! k)) [0..<length cs]"
    by blast
  with init have p0: "p0 = ?p0" by simp
  have len1: "length cs = 1" using len by simp
  then have "cs ! 0 = - ln (1 / 2)" using cs c0 p0 by simp
  with len1 have cs1: "cs = [- ln (1 / 2)]"
    by (cases cs) simp_all
  have o: "out = [(0, - ln (1 / 2))]" using out cs1 by simp
  have pa': "params_after ?i ?i 1 ?p0 2 = Inr p" using pa p0 by simp
  from t cs1 o pa' show ?thesis by blast
qed

text \<open>
  Claim C4 says that initialisation fails on a non-positive width or on fewer than two
  widths. \<^verbatim>\<open>initialize_parameters_3layer\<close> takes exactly four widths and checks
  none of them: with an input width of 0 it returns a parameter set whose first weight
  matrix has no columns.
\<close>

theorem initialize_zero_width_counterexample:
  "initialize_parameters_3layer 0 1 1 1 (\<lambda>k. 1)
   = Inr ((\<lparr>shape0 = 1, shape1 = 0, rows = [[]]\<rparr>, \<lparr>shape0 = 1, shape1 = 1, rows = [[0]]\<rparr>,
           \<lparr>shape0 = 1, shape1 = 1, rows = [[1 / 100]]\<rparr>, \<lparr>shape0 = 1, shape1 = 1, rows = [[0]]\<rparr>,
           \<lparr>shape0 = 1, shape1 = 1, rows = [[1 / 100]]\<rparr>, \<lparr>shape0 = 1, shape1 = 1, rows = [[0]]\<rparr>),
          \<lambda>k. 1)"
  by (simp add: initialize_parameters_3layer_def code_eval)

text \<open>
  Claim C4, amended. The initialiser has no validation of its own. It fails, with the
  \<^verbatim>\<open>ValueError\<close> of the array constructors, exactly when one of its four widths is
  negative; otherwise (zero widths included) it returns six arrays of the shapes
  \<open>(n_h1, n_x)\<close>, \<open>(n_h1, 1)\<close>, \<open>(n_h2, n_h1)\<close>, \<open>(n_h2, 1)\<close>, \<open>(n_y, n_h2)\<close>,
  \<open>(n_y, 1)\<close>.
\<close>

theorem initialize_fails_iff_negative:
  "if n_x < 0 \<or> n_h1 < 0 \<or> n_h2 < 0 \<or> n_y < 0
   then initialize_parameters_3layer n_x n_h1 n_h2 n_y g = Inl ValueError
   else \<exists>W1 b1 W2 b2 W3 b3 g'.
     initialize_parameters_3layer n_x n_h1 n_h2 n_y g = Inr ((W1, b1, W2, b2, W3, b3), g')
     \<and> shape0 W1 = nat n_h1 \<and> shape1 W1 = nat n_x \<and> shape0 b1 = nat n_h1 \<and> shape1 b1 = 1
     \<and> shape0 W2 = nat n_h2 \<and> shape1 W2 = nat n_h1 \<and> shape0 b2 = nat n_h2 \<and> shape1 b2 = 1
     \<and> shape0 W3 = nat n_y \<and> shape1 W3 = nat n_h2 \<and> shape0 b3 = nat n_y \<and> shape1 b3 = 1"
  by (auto simp: initialize_parameters_3layer_def randn_def np_zeros_def Let_def)

theorem initialize_fails_iff_negative_witness:
  "initialize_parameters_3layer 2 (-1) 3 1 (\<lambda>k. 1) = Inl ValueError
   \<and> (\<exists>W1 b1 W2 b2 W3 b3 g'.
     initialize_parameters_3layer 2 0 3 1 (\<lambda>k. 1) = Inr ((W1, b1, W2, b2, W3, b3), g')
     \<and> shape0 W1 = 0 \<and> shape1 W1 = 2 \<and> shape0 b1 = 0 \<and> shape1 b1 = 1
     \<and> shape0 W2 = 3 \<and> shape1 W2 = 0 \<and> shape0 b2 = 3 \<and> shape1 b2 = 1
     \<and> shape0 W3 = 1 \<and> shape1 W3 = 3 \<and> shape0 b3 = 1 \<and> shape1 b3 = 1)"
  using initialize_fails_iff_negative [of 2 "-1" 3 1 "\<lambda>k. 1"]
    initialize_fails_iff_negative [of 2 0 3 1 "\<lambda>k. 1"]
  by simp

text \<open>
  Claim C5 says that the update is rejected for a learning rate \<open>\<alpha> \<le> 0\<close>.
  \<^verbatim>\<open>update_parameters_3layer\<close> has no check on the rate: with \<open>\<alpha> = -1\<close> it
  returns \<open>W + dW\<close>.
\<close>

theorem update_nonpositive_rate_counterexample:
  "update_parameters_3layer
     (\<lparr>shape0 = 1, shape1 = 1, rows = [[1]]\<rparr>, \<lparr>shape0 = 1, shape1 = 1, rows = [[0]]\<rparr>,
      \<lparr>shape0 = 1, shape1 = 1, rows = [[1]]\<rparr>, \<lparr>shape0 = 1, shape1 = 1, rows = [[0]]\<rparr>,
      \<lparr>shape0 = 1, shape1 = 1, rows = [[1]]\<rparr>, \<lparr>shape0 = 1, shape1 = 1, rows = [[0]]\<rparr>)
     (\<lparr>shape0 = 1, shape1 = 1, rows = [[2]]\<rparr>, \<lparr>shape0 = 1, shape1 = 1, rows = [[3]]\<rparr>,
      \<lparr>shape0 = 1, shape1 = 1, rows = [[2]]\<rparr>, \<lparr>shape0 = 1, shape1 = 1, rows = [[3]]\<rparr>,
      \<lparr>shape0 = 1, shape1 = 1, rows = [[2]]\<rparr>, \<lparr>shape0 = 1, shape1 = 1, rows = [[3]]\<rparr>)
     (- 1)
   = Inr (\<lparr>shape0 = 1, shape1 = 1, rows = [[3]]\<rparr>, \<lparr>shape0 = 1, shape1 = 1, rows = [[3]]\<rparr>,
          \<lparr>shape0 = 1, shape1 = 1, rows = [[3]]\<rparr>, \<lparr>shape0 = 1, shape1 = 1, rows = [[3]]\<rparr>,
          \<lparr>shape0 = 1, shape1 = 1, rows = [[3]]\<rparr>, \<lparr>shape0 = 1, shape1 = 1, rows = [[3]]\<rparr>)"
  by (simp add: update_parameters_3layer_def code_eval)

text \<open>
  Claim C5, amended. For every learning rate, positive or not, the update of parameters
  and gradients of equal shapes returns \<open>W - \<alpha> \<cdot> dW\<close> and \<open>b - \<alpha> \<cdot> db\<close> for every
  layer; no rate is rejected, and \<^verbatim>\<open>train_three_layer\<close>, which hands the rate to
  the update unchecked, returns for every rate on an input of matching shapes.
\<close>

theorem update_applies_every_rate:
  assumes "shape0 dW1 = shape0 W1" "shape1 dW1 = shape1 W1" "shape0 db1 = shape0 b1" "shape1 db1 = shape1 b1"
    and "shape0 dW2 = shape0 W2" "shape1 dW2 = shape1 W2" "shape0 db2 = shape0 b2" "shape1 db2 = shape1 b2"
    and "shape0 dW3 = shape0 W3" "shape1 dW3 = shape1 W3" "shape0 db3 = shape0 b3" "shape1 db3 = shape1 b3"
  shows "(\<exists>W1' b1' W2' b2' W3' b3'.
      update_parameters_3layer (W1, b1, W2, b2, W3, b3) (dW1, db1, dW2, db2, dW3, db3) \<alpha>
        = Inr (W1', b1', W2', b2', W3', b3')
    \<and> (\<forall>i<shape0 W1. \<forall>j<shape1 W1. entry W1' i j = entry W1 i j - \<alpha> * entry dW1 i j)
    \<and> (\<forall>i<shape0 b1. \<forall>j<shape1 b1. entry b1' i j = entry b1 i j - \<alpha> * entry db1 i j)
    \<and> (\<forall>i<shape0 W2. \<forall>j<shape1 W2. entry W2' i j = entry W2 i j - \<alpha> * entry dW2 i j)
    \<and> (\<forall>i<shape0 b2. \<forall>j<shape1 b2. entry b2' i j = entry b2 i j - \<alpha> * entry db2 i j)
    \<and> (\<forall>i<shape0 W3. \<forall>j<shape1 W3. entry W3' i j = entry W3 i j - \<alpha> * entry dW3 i j)
    \<and> (\<forall>i<shape0 b3. \<forall>j<shape1 b3. entry b3' i j = entry b3 i j - \<alpha> * entry db3 i j)
    \<and> shape0 W1' = shape0 W1 \<and> shape1 W1' = shape1 W1 \<and> shape0 b1' = shape0 b1 \<and> shape1 b1' = shape1 b1
    \<and> shape0 W2' = shape0 W2 \<and> shape1 W2' = shape1 W2 \<and> shape0 b2' = shape0 b2 \<and> shape1 b2' = shape1 b2
    \<and> shape0 W3' = shape0 W3 \<and> shape1 W3' = shape1 W3 \<and> shape0 b3' = shape0 b3 \<and> shape1 b3' = shape1 b3)
    \<and> (shape1 y = shape1 X \<and> 0 \<le> n_h1 \<and> 0 \<le> n_h2 \<longrightarrow>
         (\<exists>r. train_three_layer X y n_h1 n_h2 \<alpha> epochs g = Inr r))"
proof (intro conjI impI)
  show "\<exists>W1' b1' W2' b2' W3' b3'.
      update_parameters_3layer (W1, b1, W2, b2, W3, b3) (dW1, db1, dW2, db2, dW3, db3) \<alpha>
        = Inr (W1', b1', W2', b2', W3', b3')
    \<and> (\<forall>i<shape0 W1. \<forall>j<shape1 W1. entry W1' i j = entry W1 i j - \<alpha> * entry dW1 i j)
    \<and> (\<forall>i<shape0 b1. \<forall>j<shape1 b1. entry b1' i j = entry b1 i j - \<alpha> * entry db1 i j)
    \<and> (\<forall>i<shape0 W2. \<forall>j<shape1 W2. entry W2' i j = entry W2 i j - \<alpha> * entry dW2 i j)
    \<and> (\<forall>i<shape0 b2. \<forall>j<shape1 b2. entry b2' i j = entry b2 i j - \<alpha> * entry db2 i j)
    \<and> (\<forall>i<shape0 W3. \<forall>j<shape1 W3. entry W3' i j = entry W3 i j - \<alpha> * entry dW3 i j)
    \<and> (\<forall>i<shape0 b3. \<forall>j<shape1 b3. entry b3' i j = entry b3 i j - \<alpha> * entry db3 i j)
    \<and> shape0 W1' = shape0 W1 \<and> shape1 W1' = shape1 W1 \<and> shape0 b1' = shape0 b1 \<and> shape1 b1' = shape1 b1
    \<and> shape0 W2' = shape0 W2 \<and> shape1 W2' = shape1 W2 \<and> shape0 b2' = shape0 b2 \<and> shape1 b2' = shape1 b2
    \<and> shape0 W3' = shape0 W3 \<and> shape1 W3' = shape1 W3 \<and> shape0 b3' = shape0 b3 \<and> shape1 b3' = shape1 b3"
    by (simp add: update_value [OF assms])
next
  assume "shape1 y = shape1 X \<and> 0 \<le> n_h1 \<and> 0 \<le> n_h2"
  then have "shape1 y = shape1 X" "0 \<le> n_h1" "0 \<le> n_h2" by simp_all
  then show "\<exists>r. train_three_layer X y n_h1 n_h2 \<alpha> epochs g = Inr r"
    by (rule train_returns)
qed

theorem update_applies_every_rate_witness:
  "(\<exists>W1' b1' W2' b2' W3' b3'.
     update_parameters_3layer
       (\<lparr>shape0 = 1, shape1 = 1, rows = [[1]]\<rparr>, \<lparr>shape0 = 1, shape1 = 1, rows = [[0]]\<rparr>,
        \<lparr>shape0 = 1, shape1 = 1, rows = [[1]]\<rparr>, \<lparr>shape0 = 1, shape1 = 1, rows = [[0]]\<rparr>,
        \<lparr>shape0 = 1, shape1 = 1, rows = [[1]]\<rparr>, \<lparr>shape0 = 1, shape1 = 1, rows = [[0]]\<rparr>)
       (\<lparr>shape0 = 1, shape1 = 1, rows = [[2]]\<rparr>, \<lparr>shape0 = 1, shape1 = 1, rows = [[3]]\<rparr>,
        \<lparr>shape0 = 1, shape1 = 1, rows = [[2]]\<rparr>, \<lparr>shape0 = 1, shape1 = 1, rows = [[3]]\<rparr>,
        \<lparr>shape0 = 1, shape1 = 1, rows = [[2]]\<rparr>, \<lparr>shape0 = 1, shape1 = 1, rows = [[3]]\<rparr>) 0
       = Inr (W1', b1', W2', b2', W3', b3')
     \<and> entry W1' 0 0 = 1 \<and> entry b1' 0 0 = 0 \<and> entry W2' 0 0 = 1 \<and> entry b2' 0 0 = 0
     \<and> entry W3' 0 0 = 1 \<and> entry b3' 0 0 = 0)
   \<and> (\<exists>r. train_three_layer \<lparr>shape0 = 1, shape1 = 1, rows = [[1]]\<rparr>
         \<lparr>shape0 = 1, shape1 = 1, rows = [[1]]\<rparr> 1 1 0 3 (\<lambda>k. 1) = Inr r)"
proof -
  let ?W = "\<lparr>shape0 = 1, shape1 = 1, rows = [[1::real]]\<rparr>"
  let ?b = "\<lparr>shape0 = 1, shape1 = 1, rows = [[0::real]]\<rparr>"
  let ?dW = "\<lparr>shape0 = 1, shape1 = 1, rows = [[2::real]]\<rparr>"
  let ?db = "\<lparr>shape0 = 1, shape1 = 1, rows = [[3::real]]\<rparr>"
  have sh: "shape0 ?dW = shape0 ?W" "shape1 ?dW = shape1 ?W" "shape0 ?db = shape0 ?b" "shape1 ?db = shape1 ?b"
    "shape0 ?dW = shape0 ?W" "shape1 ?dW = shape1 ?W" "shape0 ?db = shape0 ?b" "shape1 ?db = shape1 ?b"
    "shape0 ?dW = shape0 ?W" "shape1 ?dW = shape1 ?W" "shape0 ?db = shape0 ?b" "shape1 ?db = shape1 ?b"
    by simp_all
  note r = update_applies_every_rate [OF sh, of 0 ?W ?W 1 1 3 "\<lambda>k. 1"]
  from r [THEN conjunct1] have 1: "\<exists>W1' b1' W2' b2' W3' b3'.
     update_parameters_3layer (?W, ?b, ?W, ?b, ?W, ?b) (?dW, ?db, ?dW, ?db, ?dW, ?db) 0
       = Inr (W1', b1', W2', b2', W3', b3')
     \<and> entry W1' 0 0 = 1 \<and> entry b1' 0 0 = 0 \<and> entry W2' 0 0 = 1 \<and> entry b2' 0 0 = 0
     \<and> entry W3' 0 0 = 1 \<and> entry b3' 0 0 = 0"
    by (simp add: entry_def) blast
  from r [THEN conjunct2] have 2: "\<exists>r. train_three_layer ?W ?W 1 1 0 3 (\<lambda>k. 1) = Inr r"
    by simp
  from 1 2 show ?thesis by (rule conjI)
qed

text \<open>
  Claim C6 says that the forward pass retains every pre-activation \<open>Z\<close> for the backward
  step. \<^verbatim>\<open>forward_propagation_3layer\<close> returns \<open>A1, A2, A3\<close> only: two inputs
  whose first pre-activations \<^verbatim>\<open>Z1 = np.dot(W1, X) + b1\<close> differ (\<open>-1\<close> and \<open>-2\<close>)
  give the same returned value, so the pre-activation cannot be read off what the
  forward pass hands on.
\<close>

theorem forward_discards_pre_activations_counterexample:
  "forward_propagation_3layer \<lparr>shape0 = 1, shape1 = 1, rows = [[-1]]\<rparr>
     \<lparr>shape0 = 1, shape1 = 1, rows = [[1]]\<rparr> \<lparr>shape0 = 1, shape1 = 1, rows = [[0]]\<rparr>
     \<lparr>shape0 = 1, shape1 = 1, rows = [[1]]\<rparr> \<lparr>shape0 = 1, shape1 = 1, rows = [[0]]\<rparr>
     \<lparr>shape0 = 1, shape1 = 1, rows = [[1]]\<rparr> \<lparr>shape0 = 1, shape1 = 1, rows = [[0]]\<rparr>
   = Inr (\<lparr>shape0 = 1, shape1 = 1, rows = [[0]]\<rparr>, \<lparr>shape0 = 1, shape1 = 1, rows = [[0]]\<rparr>,
          \<lparr>shape0 = 1, shape1 = 1, rows = [[1 / 2]]\<rparr>)
   \<and> forward_propagation_3layer \<lparr>shape0 = 1, shape1 = 1, rows = [[-2]]\<rparr>
     \<lparr>shape0 = 1, shape1 = 1, rows = [[1]]\<rparr> \<lparr>shape0 = 1, shape1 = 1, rows = [[0]]\<rparr>
     \<lparr>shape0 = 1, shape1 = 1, rows = [[1]]\<rparr> \<lparr>shape0 = 1, shape1 = 1, rows = [[0]]\<rparr>
     \<lparr>shape0 = 1, shape1 = 1, rows = [[1]]\<rparr> \<lparr>shape0 = 1, shape1 = 1, rows = [[0]]\<rparr>
   = Inr (\<lparr>shape0 = 1, shape1 = 1, rows = [[0]]\<rparr>, \<lparr>shape0 = 1, shape1 = 1, rows = [[0]]\<rparr>,
          \<lparr>shape0 = 1, shape1 = 1, rows = [[1 / 2]]\<rparr>)
   \<and> bindE (np_dot \<lparr>shape0 = 1, shape1 = 1, rows = [[1]]\<rparr> \<lparr>shape0 = 1, shape1 = 1, rows = [[-1]]\<rparr>)
        (\<lambda>D1. np_add D1 \<lparr>shape0 = 1, shape1 = 1, rows = [[0]]\<rparr>)
       = Inr \<lparr>shape0 = 1, shape1 = 1, rows = [[-1]]\<rparr>
   \<and> bindE (np_dot \<lparr>shape0 = 1, shape1 = 1, rows = [[1]]\<rparr> \<lparr>shape0 = 1, shape1 = 1, rows = [[-2]]\<rparr>)
        (\<lambda>D1. np_add D1 \<lparr>shape0 = 1, shape1 = 1, rows = [[0]]\<rparr>)
       = Inr \<lparr>shape0 = 1, shape1 = 1, rows = [[-2]]\<rparr>"
  by (simp add: forward_propagation_3layer_def code_eval)

text \<open>
  Claim C6, amended. On parameters and an input of matching shapes the forward pass
  returns exactly the three post-activations of the pass, \<open>relu(Z1)\<close>, \<open>relu(Z2)\<close> and
  \<open>sigmoid(Z3)\<close>, and an epoch of the training loop returns, having handed exactly
  these (with \<open>X\<close> as \<open>A0\<close>) to the cost and to the backward step of the same epoch,
  whose gradients the update then applies. The pre-activations are not retained: what
  the forward pass returns depends on \<open>Z1\<close> and on \<open>Z2\<close> only through \<open>relu(Z1)\<close> and
  \<open>relu(Z2)\<close>, so passes whose hidden pre-activations differ but agree after ReLU
  return the same cache.
\<close>

theorem forward_cache_feeds_backward:
  assumes "shape0 X = n0" "shape1 X = m" "shape0 y = n3" "shape1 y = m"
    and "shape0 W1 = n1" "shape1 W1 = n0" "shape0 b1 = n1" "shape1 b1 = 1"
    and "shape0 W2 = n2" "shape1 W2 = n1" "shape0 b2 = n2" "shape1 b2 = 1"
    and "shape0 W3 = n3" "shape1 W3 = n2" "shape0 b3 = n3" "shape1 b3 = 1"
    and "weights s = (W1, b1, W2, b2, W3, b3)"
  defines "Z1 \<equiv> mk n1 m (pre_activation_spec W1 X b1)"
  defines "Z2 \<equiv> mk n2 m (pre_activation_spec W2 (relu Z1) b2)"
  defines "Z3 \<equiv> mk n3 m (pre_activation_spec W3 (relu Z2) b3)"
  shows "forward_propagation_3layer X W1 b1 W2 b2 W3 b3 = Inr (relu Z1, relu Z2, sigmoid Z3)
       \<and> (\<exists>J d s'. compute_cost_3layer (sigmoid Z3) y = Inr J
            \<and> backward_propagation_3layer X y (relu Z1) (relu Z2) (sigmoid Z3) W2 W3 = Inr d
            \<and> update_parameters_3layer (W1, b1, W2, b2, W3, b3) d \<alpha> = Inr (weights s')
            \<and> epoch_body X y \<alpha> i s = Inr s')
       \<and> (shape0 X' = n0' \<and> shape1 X' = m \<and> shape0 W1' = n1 \<and> shape1 W1' = n0'
            \<and> shape0 b1' = n1 \<and> shape1 b1' = 1
            \<and> relu (mk n1 m (pre_activation_spec W1' X' b1')) = relu Z1 \<longrightarrow>
          forward_propagation_3layer X' W1' b1' W2 b2 W3 b3 = Inr (relu Z1, relu Z2, sigmoid Z3))
       \<and> (shape0 W2' = n2 \<and> shape1 W2' = n1 \<and> shape0 b2' = n2 \<and> shape1 b2' = 1
            \<and> relu (mk n2 m (pre_activation_spec W2' (relu Z1) b2')) = relu Z2 \<longrightarrow>
          forward_propagation_3layer X W1 b1 W2' b2' W3 b3 = Inr (relu Z1, relu Z2, sigmoid Z3))"
proof (intro conjI impI)
  show f: "forward_propagation_3layer X W1 b1 W2 b2 W3 b3 = Inr (relu Z1, relu Z2, sigmoid Z3)"
    unfolding Z1_def Z2_def Z3_def using assms(1,2,5-16) by (rule forward_value)
  show "\<exists>J d s'. compute_cost_3layer (sigmoid Z3) y = Inr J
            \<and> backward_propagation_3layer X y (relu Z1) (relu Z2) (sigmoid Z3) W2 W3 = Inr d
            \<and> update_parameters_3layer (W1, b1, W2, b2, W3, b3) d \<alpha> = Inr (weights s')
            \<and> epoch_body X y \<alpha> i s = Inr s'"
    unfolding Z1_def Z2_def Z3_def using assms(1-17) by (rule epoch_stages)
  {
    assume h: "shape0 X' = n0' \<and> shape1 X' = m \<and> shape0 W1' = n1 \<and> shape1 W1' = n0'
            \<and> shape0 b1' = n1 \<and> shape1 b1' = 1
            \<and> relu (mk n1 m (pre_activation_spec W1' X' b1')) = relu Z1"
    then have s: "shape0 X' = n0'" "shape1 X' = m" "shape0 W1' = n1" "shape1 W1' = n0'"
      "shape0 b1' = n1" "shape1 b1' = 1"
      and r: "relu (mk n1 m (pre_activation_spec W1' X' b1')) = relu (mk n1 m (pre_activation_spec W1 X b1))"
      by (simp_all add: Z1_def)
    have "forward_propagation_3layer X' W1' b1' W2 b2 W3 b3
          = forward_propagation_3layer X W1 b1 W2 b2 W3 b3"
      using assms(1,2,5-16) s r by (rule forward_depends_on_relu)
    with f show "forward_propagation_3layer X' W1' b1' W2 b2 W3 b3
          = Inr (relu Z1, relu Z2, sigmoid Z3)" by simp
  }
  {
    assume h: "shape0 W2' = n2 \<and> shape1 W2' = n1 \<and> shape0 b2' = n2 \<and> shape1 b2' = 1
            \<and> relu (mk n2 m (pre_activation_spec W2' (relu Z1) b2')) = relu Z2"
    then have s: "shape0 W2' = n2" "shape1 W2' = n1" "shape0 b2' = n2" "shape1 b2' = 1"
      and r: "relu (mk n2 m (pre_activation_spec W2' (relu (mk n1 m (pre_activation_spec W1 X b1))) b2'))
              = relu Z2"
      by (simp_all add: Z1_def)
    note a = forward_value [OF assms(1,2,5-8) s assms(13-16)]
    show "forward_propagation_3layer X W1 b1 W2' b2' W3 b3 = Inr (relu Z1, relu Z2, sigmoid Z3)"
      unfolding a r unfolding Z1_def Z3_def by (rule refl)
  }
qed

theorem forward_cache_feeds_backward_witness:
  "forward_propagation_3layer \<lparr>shape0 = 1, shape1 = 1, rows = [[1]]\<rparr>
     \<lparr>shape0 = 1, shape1 = 1, rows = [[-1]]\<rparr> \<lparr>shape0 = 1, shape1 = 1, rows = [[0]]\<rparr>
     \<lparr>shape0 = 1, shape1 = 1, rows = [[1]]\<rparr> \<lparr>shape0 = 1, shape1 = 1, rows = [[0]]\<rparr>
     \<lparr>shape0 = 1, shape1 = 1, rows = [[1]]\<rparr> \<lparr>shape0 = 1, shape1 = 1, rows = [[0]]\<rparr>
   = Inr (\<lparr>shape0 = 1, shape1 = 1, rows = [[0]]\<rparr>, \<lparr>shape0 = 1, shape1 = 1, rows = [[0]]\<rparr>,
          \<lparr>shape0 = 1, shape1 = 1, rows = [[1 / 2]]\<rparr>)
   \<and> (\<exists>J d s'.
        compute_cost_3layer \<lparr>shape0 = 1, shape1 = 1, rows = [[1 / 2]]\<rparr>
          \<lparr>shape0 = 1, shape1 = 1, rows = [[1]]\<rparr> = Inr J
      \<and> backward_propagation_3layer \<lparr>shape0 = 1, shape1 = 1, rows = [[1]]\<rparr>
          \<lparr>shape0 = 1, shape1 = 1, rows = [[1]]\<rparr>
          \<lparr>shape0 = 1, shape1 = 1, rows = [[0]]\<rparr> \<lparr>shape0 = 1, shape1 = 1, rows = [[0]]\<rparr>
          \<lparr>shape0 = 1, shape1 = 1, rows = [[1 / 2]]\<rparr>
          \<lparr>shape0 = 1, shape1 = 1, rows = [[1]]\<rparr> \<lparr>shape0 = 1, shape1 = 1, rows = [[1]]\<rparr> = Inr d
      \<and> epoch_body \<lparr>shape0 = 1, shape1 = 1, rows = [[1]]\<rparr> \<lparr>shape0 = 1, shape1 = 1, rows = [[1]]\<rparr>
          1 0
          \<lparr>weights = (\<lparr>shape0 = 1, shape1 = 1, rows = [[-1]]\<rparr>, \<lparr>shape0 = 1, shape1 = 1, rows = [[0]]\<rparr>,
                       \<lparr>shape0 = 1, shape1 = 1, rows = [[1]]\<rparr>, \<lparr>shape0 = 1, shape1 = 1, rows = [[0]]\<rparr>,
                       \<lparr>shape0 = 1, shape1 = 1, rows = [[1]]\<rparr>, \<lparr>shape0 = 1, shape1 = 1, rows = [[0]]\<rparr>),
           costs = [], printed = []\<rparr> = Inr s')
   \<and> forward_propagation_3layer \<lparr>shape0 = 1, shape1 = 1, rows = [[1]]\<rparr>
     \<lparr>shape0 = 1, shape1 = 1, rows = [[-2]]\<rparr> \<lparr>shape0 = 1, shape1 = 1, rows = [[0]]\<rparr>
     \<lparr>shape0 = 1, shape1 = 1, rows = [[1]]\<rparr> \<lparr>shape0 = 1, shape1 = 1, rows = [[0]]\<rparr>
     \<lparr>shape0 = 1, shape1 = 1, rows = [[1]]\<rparr> \<lparr>shape0 = 1, shape1 = 1, rows = [[0]]\<rparr>
   = Inr (\<lparr>shape0 = 1, shape1 = 1, rows = [[0]]\<rparr>, \<lparr>shape0 = 1, shape1 = 1, rows = [[0]]\<rparr>,
          \<lparr>shape0 = 1, shape1 = 1, rows = [[1 / 2]]\<rparr>)
   \<and> forward_propagation_3layer \<lparr>shape0 = 1, shape1 = 1, rows = [[1]]\<rparr>
     \<lparr>shape0 = 1, shape1 = 1, rows = [[-1]]\<rparr> \<lparr>shape0 = 1, shape1 = 1, rows = [[0]]\<rparr>
     \<lparr>shape0 = 1, shape1 = 1, rows = [[1]]\<rparr> \<lparr>shape0 = 1, shape1 = 1, rows = [[-1]]\<rparr>
     \<lparr>shape0 = 1, shape1 = 1, rows = [[1]]\<rparr> \<lparr>shape0 = 1, shape1 = 1, rows = [[0]]\<rparr>
   = Inr (\<lparr>shape0 = 1, shape1 = 1, rows = [[0]]\<rparr>, \<lparr>shape0 = 1, shape1 = 1, rows = [[0]]\<rparr>,
          \<lparr>shape0 = 1, shape1 = 1, rows = [[1 / 2]]\<rparr>)
   \<and> bindE (np_dot \<lparr>shape0 = 1, shape1 = 1, rows = [[-1]]\<rparr> \<lparr>shape0 = 1, shape1 = 1, rows = [[1]]\<rparr>)
        (\<lambda>D1. np_add D1 \<lparr>shape0 = 1, shape1 = 1, rows = [[0]]\<rparr>)
       = Inr \<lparr>shape0 = 1, shape1 = 1, rows = [[-1]]\<rparr>
   \<and> bindE (np_dot \<lparr>shape0 = 1, shape1 = 1, rows = [[-2]]\<rparr> \<lparr>shape0 = 1, shape1 = 1, rows = [[1]]\<rparr>)
        (\<lambda>D1. np_add D1 \<lparr>shape0 = 1, shape1 = 1, rows = [[0]]\<rparr>)
       = Inr \<lparr>shape0 = 1, shape1 = 1, rows = [[-2]]\<rparr>"
proof -
  let ?i = "\<lparr>shape0 = 1, shape1 = 1, rows = [[1::real]]\<rparr>"
  let ?o = "\<lparr>shape0 = 1, shape1 = 1, rows = [[0::real]]\<rparr>"
  let ?m1 = "\<lparr>shape0 = 1, shape1 = 1, rows = [[-1::real]]\<rparr>"
  let ?m2 = "\<lparr>shape0 = 1, shape1 = 1, rows = [[-2::real]]\<rparr>"
  let ?h = "\<lparr>shape0 = 1, shape1 = 1, rows = [[1 / 2::real]]\<rparr>"
  let ?s = "\<lparr>weights = (?m1, ?o, ?i, ?o, ?i, ?o), costs = [], printed = []\<rparr>"
  have sh: "shape0 ?i = 1" "shape1 ?i = 1" "shape0 ?i = 1" "shape1 ?i = 1"
    "shape0 ?m1 = 1" "shape1 ?m1 = 1" "shape0 ?o = 1" "shape1 ?o = 1"
    "shape0 ?i = 1" "shape1 ?i = 1" "shape0 ?o = 1" "shape1 ?o = 1"
    "shape0 ?i = 1" "shape1 ?i = 1" "shape0 ?o = 1" "shape1 ?o = 1"
    "weights ?s = (?m1, ?o, ?i, ?o, ?i, ?o)"
    by simp_all
  have z1: "relu (mk 1 1 (pre_activation_spec ?m1 ?i ?o)) = ?o"
    by (simp add: relu_def map_nd_def mk_def entry_def pre_activation_spec_def)
  have z1': "relu (mk 1 1 (pre_activation_spec ?m2 ?i ?o)) = ?o"
    by (simp add: relu_def map_nd_def mk_def entry_def pre_activation_spec_def)
  have z2: "relu (mk 1 1 (pre_activation_spec ?i ?o ?o)) = ?o"
    by (simp add: relu_def map_nd_def mk_def entry_def pre_activation_spec_def)
  have z2': "relu (mk 1 1 (pre_activation_spec ?i ?o ?m1)) = ?o"
    by (simp add: relu_def map_nd_def mk_def entry_def pre_activation_spec_def)
  have z3: "sigmoid (mk 1 1 (pre_activation_spec ?i ?o ?o)) = ?h"
    by (simp add: sigmoid_def np_exp_def map_nd_def mk_def entry_def pre_activation_spec_def)
  note r = forward_cache_feeds_backward [OF sh, of 1 0 ?i 1 ?m2 ?o ?i ?m1, unfolded z1 z2 z3]
  have 1: "forward_propagation_3layer ?i ?m1 ?o ?i ?o ?i ?o = Inr (?o, ?o, ?h)"
    using r by (rule conjunct1)
  have 2: "\<exists>J d s'. compute_cost_3layer ?h ?i = Inr J
      \<and> backward_propagation_3layer ?i ?i ?o ?o ?h ?i ?i = Inr d
      \<and> epoch_body ?i ?i 1 0 ?s = Inr s'"
    using r [THEN conjunct2, THEN conjunct1] by blast
  have 3: "forward_propagation_3layer ?i ?m2 ?o ?i ?o ?i ?o = Inr (?o, ?o, ?h)"
    using r [THEN conjunct2, THEN conjunct2, THEN conjunct1] z1' by simp
  have 4: "forward_propagation_3layer ?i ?m1 ?o ?i ?m1 ?i ?o = Inr (?o, ?o, ?h)"
    using r [THEN conjunct2, THEN conjunct2, THEN conjunct2] z2' by simp
  have 5: "bindE (np_dot ?m1 ?i) (\<lambda>D1. np_add D1 ?o) = Inr ?m1"
    "bindE (np_dot ?m2 ?i) (\<lambda>D1. np_add D1 ?o) = Inr ?m2"
    by (simp_all add: code_eval)
  from 1 2 3 4 5 show ?thesis by (intro conjI)
qed

text \<open>
  Claim C7. On parameters and an input of matching shapes,
  \<^verbatim>\<open>forward_propagation_3layer\<close> returns, layer by layer from \<open>A0 = X\<close>, the
  post-activations \<open>A = max(0, Z)\<close> of the two hidden layers and
  \<open>A3 = 1 / (1 + exp(-Z3))\<close> of the output layer, where \<open>Z = W \<cdot> A_prev + b\<close> with the
  bias broadcast across the \<open>m\<close> columns.
\<close>

theorem forward_propagation_computes:
  assumes "shape0 X = n0" "shape1 X = m"
    and "shape0 W1 = n1" "shape1 W1 = n0" "shape0 b1 = n1" "shape1 b1 = 1"
    and "shape0 W2 = n2" "shape1 W2 = n1" "shape0 b2 = n2" "shape1 b2 = 1"
    and "shape0 W3 = n3" "shape1 W3 = n2" "shape0 b3 = n3" "shape1 b3 = 1"
  shows "\<exists>A1 A2 A3. forward_propagation_3layer X W1 b1 W2 b2 W3 b3 = Inr (A1, A2, A3)
     \<and> shape0 A1 = n1 \<and> shape1 A1 = m \<and> shape0 A2 = n2 \<and> shape1 A2 = m
     \<and> shape0 A3 = n3 \<and> shape1 A3 = m
     \<and> (\<forall>i<n1. \<forall>j<m. entry A1 i j = max 0 (pre_activation_spec W1 X b1 i j))
     \<and> (\<forall>i<n2. \<forall>j<m. entry A2 i j = max 0 (pre_activation_spec W2 A1 b2 i j))
     \<and> (\<forall>i<n3. \<forall>j<m. entry A3 i j = 1 / (1 + exp (- pre_activation_spec W3 A2 b3 i j)))"
proof -
  let ?Z1 = "mk n1 m (pre_activation_spec W1 X b1)"
  let ?Z2 = "mk n2 m (pre_activation_spec W2 (relu ?Z1) b2)"
  let ?Z3 = "mk n3 m (pre_activation_spec W3 (relu ?Z2) b3)"
  have "forward_propagation_3layer X W1 b1 W2 b2 W3 b3 = Inr (relu ?Z1, relu ?Z2, sigmoid ?Z3)"
    using assms by (rule forward_value)
  then show ?thesis by simp
qed

theorem forward_propagation_computes_witness:
  "\<exists>A1 A2 A3.
     forward_propagation_3layer \<lparr>shape0 = 2, shape1 = 1, rows = [[3], [-1]]\<rparr>
       \<lparr>shape0 = 1, shape1 = 2, rows = [[1, 2]]\<rparr> \<lparr>shape0 = 1, shape1 = 1, rows = [[0]]\<rparr>
       \<lparr>shape0 = 1, shape1 = 1, rows = [[-1]]\<rparr> \<lparr>shape0 = 1, shape1 = 1, rows = [[0]]\<rparr>
       \<lparr>shape0 = 1, shape1 = 1, rows = [[5]]\<rparr> \<lparr>shape0 = 1, shape1 = 1, rows = [[0]]\<rparr>
       = Inr (A1, A2, A3)
     \<and> entry A1 0 0 = 1 \<and> entry A2 0 0 = 0 \<and> entry A3 0 0 = 1 / 2"
proof -
  let ?X = "\<lparr>shape0 = 2, shape1 = 1, rows = [[3], [-1::real]]\<rparr>"
  let ?W1 = "\<lparr>shape0 = 1, shape1 = 2, rows = [[1, 2::real]]\<rparr>"
  let ?b = "\<lparr>shape0 = 1, shape1 = 1, rows = [[0::real]]\<rparr>"
  let ?W2 = "\<lparr>shape0 = 1, shape1 = 1, rows = [[-1::real]]\<rparr>"
  let ?W3 = "\<lparr>shape0 = 1, shape1 = 1, rows = [[5::real]]\<rparr>"
  from forward_propagation_computes [of ?X 2 1 ?W1 1 ?b ?W2 1 ?b ?W3 1 ?b]
  obtain A1 A2 A3 where
    f: "forward_propagation_3layer ?X ?W1 ?b ?W2 ?b ?W3 ?b = Inr (A1, A2, A3)"
    and a1: "entry A1 0 0 = max 0 (pre_activation_spec ?W1 ?X ?b 0 0)"
    and a2: "entry A2 0 0 = max 0 (pre_activation_spec ?W2 A1 ?b 0 0)"
    and a3: "entry A3 0 0 = 1 / (1 + exp (- pre_activation_spec ?W3 A2 ?b 0 0))"
    by auto
  have "entry A1 0 0 = 1"
    using a1 by (simp add: pre_activation_spec_def entry_def numeral_2_eq_2)
  moreover from this have "entry A2 0 0 = 0"
    using a2 by (simp add: pre_activation_spec_def entry_def)
  moreover from this have "entry A3 0 0 = 1 / 2"
    using a3 by (simp add: pre_activation_spec_def entry_def)
  ultimately show ?thesis using f by blast
qed

text \<open>
  Claim C8. For predictions \<open>A3\<close> of shape \<open>(1, m)\<close> with entries strictly between 0
  and 1 and labels \<open>y\<close> of shape \<open>(1, m)\<close>, \<open>m > 0\<close>, \<^verbatim>\<open>compute_cost_3layer\<close>
  returns the binary cross-entropy
  \<open>-(1/m) \<cdot> \<Sum>\<^sub>i (y\<^sub>i \<cdot> log A3\<^sub>i + (1 - y\<^sub>i) \<cdot> log (1 - A3\<^sub>i))\<close>.
\<close>

theorem compute_cost_binary_cross_entropy:
  assumes "shape0 A3 = 1" "shape1 A3 = m" "shape0 y = 1" "shape1 y = m" "0 < m"
    and "\<forall>i<m. 0 < entry A3 0 i \<and> entry A3 0 i < 1"
  shows "compute_cost_3layer A3 y = Inr (bce_spec m A3 y)"
proof -
  have t1: "np_multiply y (np_log A3) = Inr (mk 1 m (\<lambda>i j. entry y i j * ln (entry A3 i j)))"
    using assms(1-4) by (auto simp: np_multiply_same np_log_def intro!: mk_cong)
  have t2: "np_multiply (map_nd (\<lambda>x. 1 - x) y) (np_log (map_nd (\<lambda>x. 1 - x) A3))
            = Inr (mk 1 m (\<lambda>i j. (1 - entry y i j) * ln (1 - entry A3 i j)))"
    using assms(1-4) by (auto simp: np_multiply_same np_log_def intro!: mk_cong)
  show ?thesis
    unfolding compute_cost_3layer_def Let_def t1 t2
    using assms(4) by (simp add: np_add_mk np_sum_row bce_spec_def)
qed

theorem compute_cost_binary_cross_entropy_witness:
  "compute_cost_3layer \<lparr>shape0 = 1, shape1 = 2, rows = [[1 / 2, 1 / 4]]\<rparr>
     \<lparr>shape0 = 1, shape1 = 2, rows = [[1, 0]]\<rparr>
   = Inr (- (1 / 2) * (ln (1 / 2) + ln (3 / 4)))"
  using compute_cost_binary_cross_entropy
    [of "\<lparr>shape0 = 1, shape1 = 2, rows = [[1 / 2, 1 / 4]]\<rparr>" 2
        "\<lparr>shape0 = 1, shape1 = 2, rows = [[1, 0]]\<rparr>"]
  by (simp add: bce_spec_def entry_def numeral_2_eq_2 less_Suc_eq)

text \<open>
  Claim C9. For positive layer widths, parameters of the matching shapes and a batch of
  \<open>m \<ge> 1\<close> samples, the forward pass returns \<open>A3\<close> of shape \<open>(n3, m)\<close>, and the
  backward pass on its outputs returns, for every layer, a weight gradient of the shape
  of the weights and a bias gradient of the shape of the bias. The parameters the
  initialiser returns for these widths have the matching shapes.
\<close>

theorem shape_invariants:
  assumes "shape0 X = n0" "shape1 X = m" "shape0 y = n3" "shape1 y = m"
    and "shape0 W1 = n1" "shape1 W1 = n0" "shape0 b1 = n1" "shape1 b1 = 1"
    and "shape0 W2 = n2" "shape1 W2 = n1" "shape0 b2 = n2" "shape1 b2 = 1"
    and "shape0 W3 = n3" "shape1 W3 = n2" "shape0 b3 = n3" "shape1 b3 = 1"
    and "0 < n0" "0 < n1" "0 < n2" "0 < n3" "0 < m"
  shows "\<exists>A1 A2 A3 dW1 db1 dW2 db2 dW3 db3.
           forward_propagation_3layer X W1 b1 W2 b2 W3 b3 = Inr (A1, A2, A3)
         \<and> shape0 A3 = n3 \<and> shape1 A3 = m
         \<and> backward_propagation_3layer X y A1 A2 A3 W2 W3 = Inr (dW1, db1, dW2, db2, dW3, db3)
         \<and> shape0 dW1 = shape0 W1 \<and> shape1 dW1 = shape1 W1
         \<and> shape0 db1 = shape0 b1 \<and> shape1 db1 = shape1 b1
         \<and> shape0 dW2 = shape0 W2 \<and> shape1 dW2 = shape1 W2
         \<and> shape0 db2 = shape0 b2 \<and> shape1 db2 = shape1 b2
         \<and> shape0 dW3 = shape0 W3 \<and> shape1 dW3 = shape1 W3
         \<and> shape0 db3 = shape0 b3 \<and> shape1 db3 = shape1 b3
         \<and> (\<exists>p0 g'. initialize_parameters_3layer (int n0) (int n1) (int n2) (int n3) g
                       = Inr (p0, g')
                  \<and> params_shapes n0 n1 n2 n3 p0)"
proof -
  let ?Z1 = "mk n1 m (pre_activation_spec W1 X b1)"
  let ?Z2 = "mk n2 m (pre_activation_spec W2 (relu ?Z1) b2)"
  let ?Z3 = "mk n3 m (pre_activation_spec W3 (relu ?Z2) b3)"
  have f: "forward_propagation_3layer X W1 b1 W2 b2 W3 b3 = Inr (relu ?Z1, relu ?Z2, sigmoid ?Z3)"
    using assms(1,2,5-16) by (rule forward_value)
  have b: "\<exists>d. backward_propagation_3layer X y (relu ?Z1) (relu ?Z2) (sigmoid ?Z3) W2 W3 = Inr d
      \<and> shape0 (fst d) = n1 \<and> shape1 (fst d) = n0
      \<and> shape0 (fst (snd d)) = n1 \<and> shape1 (fst (snd d)) = 1
      \<and> shape0 (fst (snd (snd d))) = n2 \<and> shape1 (fst (snd (snd d))) = n1
      \<and> shape0 (fst (snd (snd (snd d)))) = n2 \<and> shape1 (fst (snd (snd (snd d)))) = 1
      \<and> shape0 (fst (snd (snd (snd (snd d))))) = n3 \<and> shape1 (fst (snd (snd (snd (snd d))))) = n2
      \<and> shape0 (snd (snd (snd (snd (snd d))))) = n3 \<and> shape1 (snd (snd (snd (snd (snd d))))) = 1"
    using assms(1-4,9,10,13,14) by (simp add: backward_value)
  then obtain d where d: "backward_propagation_3layer X y (relu ?Z1) (relu ?Z2) (sigmoid ?Z3) W2 W3 = Inr d"
    and s: "shape0 (fst d) = n1" "shape1 (fst d) = n0"
      "shape0 (fst (snd d)) = n1" "shape1 (fst (snd d)) = 1"
      "shape0 (fst (snd (snd d))) = n2" "shape1 (fst (snd (snd d))) = n1"
      "shape0 (fst (snd (snd (snd d)))) = n2" "shape1 (fst (snd (snd (snd d)))) = 1"
      "shape0 (fst (snd (snd (snd (snd d))))) = n3" "shape1 (fst (snd (snd (snd (snd d))))) = n2"
      "shape0 (snd (snd (snd (snd (snd d))))) = n3" "shape1 (snd (snd (snd (snd (snd d))))) = 1"
    by blast
  obtain dW1 db1 dW2 db2 dW3 db3 where e: "d = (dW1, db1, dW2, db2, dW3, db3)"
    by (metis prod.collapse)
  have i: "\<exists>p0 g'. initialize_parameters_3layer (int n0) (int n1) (int n2) (int n3) g
                       = Inr (p0, g')
                  \<and> params_shapes n0 n1 n2 n3 p0"
    using initialize_params_shapes [of "int n1" "int n2" n0 n3 g] by simp
  show ?thesis
    using f d s i assms(5-16) unfolding e by simp
qed

theorem shape_invariants_witness:
  "\<exists>A1 A2 A3 dW1 db1 dW2 db2 dW3 db3.
     forward_propagation_3layer \<lparr>shape0 = 2, shape1 = 1, rows = [[3], [-1]]\<rparr>
       \<lparr>shape0 = 1, shape1 = 2, rows = [[1, 2]]\<rparr> \<lparr>shape0 = 1, shape1 = 1, rows = [[0]]\<rparr>
       \<lparr>shape0 = 1, shape1 = 1, rows = [[-1]]\<rparr> \<lparr>shape0 = 1, shape1 = 1, rows = [[0]]\<rparr>
       \<lparr>shape0 = 1, shape1 = 1, rows = [[5]]\<rparr> \<lparr>shape0 = 1, shape1 = 1, rows = [[0]]\<rparr>
       = Inr (A1, A2, A3)
     \<and> shape0 A3 = 1 \<and> shape1 A3 = 1
     \<and> backward_propagation_3layer \<lparr>shape0 = 2, shape1 = 1, rows = [[3], [-1]]\<rparr>
         \<lparr>shape0 = 1, shape1 = 1, rows = [[1]]\<rparr> A1 A2 A3
         \<lparr>shape0 = 1, shape1 = 1, rows = [[-1]]\<rparr> \<lparr>shape0 = 1, shape1 = 1, rows = [[5]]\<rparr>
       = Inr (dW1, db1, dW2, db2, dW3, db3)
     \<and> shape0 dW1 = 1 \<and> shape1 dW1 = 2 \<and> shape0 db1 = 1 \<and> shape1 db1 = 1
     \<and> shape0 dW2 = 1 \<and> shape1 dW2 = 1 \<and> shape0 db2 = 1 \<and> shape1 db2 = 1
     \<and> shape0 dW3 = 1 \<and> shape1 dW3 = 1 \<and> shape0 db3 = 1 \<and> shape1 db3 = 1
     \<and> (\<exists>p0 g'. initialize_parameters_3layer 2 1 1 1 (\<lambda>k. 1) = Inr (p0, g')
            \<and> params_shapes 2 1 1 1 p0)"
proof -
  let ?X = "\<lparr>shape0 = 2, shape1 = 1, rows = [[3], [-1::real]]\<rparr>"
  let ?y = "\<lparr>shape0 = 1, shape1 = 1, rows = [[1::real]]\<rparr>"
  let ?W1 = "\<lparr>shape0 = 1, shape1 = 2, rows = [[1, 2::real]]\<rparr>"
  let ?b = "\<lparr>shape0 = 1, shape1 = 1, rows = [[0::real]]\<rparr>"
  let ?W2 = "\<lparr>shape0 = 1, shape1 = 1, rows = [[-1::real]]\<rparr>"
  let ?W3 = "\<lparr>shape0 = 1, shape1 = 1, rows = [[5::real]]\<rparr>"
  have "shape0 ?X = 2" "shape1 ?X = 1" "shape0 ?y = 1" "shape1 ?y = 1"
    "shape0 ?W1 = 1" "shape1 ?W1 = 2" "shape0 ?b = 1" "shape1 ?b = 1"
    "shape0 ?W2 = 1" "shape1 ?W2 = 1" "shape0 ?b = 1" "shape1 ?b = 1"
    "shape0 ?W3 = 1" "shape1 ?W3 = 1" "shape0 ?b = 1" "shape1 ?b = 1"
    "(0::nat) < 2" "(0::nat) < 1" "(0::nat) < 1" "(0::nat) < 1" "(0::nat) < 1"
    by simp_all
  from shape_invariants [OF this, of "\<lambda>k. 1"] show ?thesis by simp
qed

text \<open>
  Claim C10. Over the store, with every argument a reference to an existing object:
  whenever the update, the cost computation or the backward pass returns, every object
  that was in the store before the call is in the store after it under the same
  reference and unchanged (the arguments among them), the arrays returned are new
  objects, and their values are those of the functions on array values; the update
  returns \<open>W - \<alpha> \<cdot> dW\<close> and \<open>b - \<alpha> \<cdot> db\<close> for gradients of the parameters' shapes.
  Each stage returns whenever the function on array values does.
\<close>

theorem stages_leave_inputs_unchanged:
  assumes "valid6 h p" "valid6 h d"
    and "X < length h" "y < length h" "A1 < length h" "A2 < length h" "A3 < length h"
      "W2 < length h" "W3 < length h"
  shows "(update_parameters_3layer_h p d \<alpha> h = Inr (p', h1) \<longrightarrow>
            unchanged h h1 \<and> fresh6 h p' \<and> valid6 h1 p'
          \<and> update_parameters_3layer (deref6 h p) (deref6 h d) \<alpha> = Inr (deref6 h1 p')
          \<and> (same_shapes6 (deref6 h d) (deref6 h p) \<longrightarrow>
               deref6 h1 p' = updated_spec \<alpha> (deref6 h p) (deref6 h d)))
       \<and> (compute_cost_3layer_h A3 y h = Inr (J, h2) \<longrightarrow>
            unchanged h h2 \<and> compute_cost_3layer (deref h A3) (deref h y) = Inr J)
       \<and> (backward_propagation_3layer_h X y A1 A2 A3 W2 W3 h = Inr (g, h3) \<longrightarrow>
            unchanged h h3 \<and> fresh6 h g \<and> valid6 h3 g
          \<and> backward_propagation_3layer (deref h X) (deref h y) (deref h A1) (deref h A2)
               (deref h A3) (deref h W2) (deref h W3) = Inr (deref6 h3 g))
       \<and> (update_parameters_3layer (deref6 h p) (deref6 h d) \<alpha> = Inr v \<longrightarrow>
            (\<exists>q k. update_parameters_3layer_h p d \<alpha> h = Inr (q, k)))
       \<and> (compute_cost_3layer (deref h A3) (deref h y) = Inr c \<longrightarrow>
            (\<exists>k. compute_cost_3layer_h A3 y h = Inr (c, k)))
       \<and> (backward_propagation_3layer (deref h X) (deref h y) (deref h A1) (deref h A2)
               (deref h A3) (deref h W2) (deref h W3) = Inr w \<longrightarrow>
            (\<exists>q k. backward_propagation_3layer_h X y A1 A2 A3 W2 W3 h = Inr (q, k)))"
proof (intro conjI impI)
  assume u: "update_parameters_3layer_h p d \<alpha> h = Inr (p', h1)"
  note r = update_h_returns [OF assms(1,2) u]
  from r show "unchanged h h1" "fresh6 h p'" "valid6 h1 p'"
    "update_parameters_3layer (deref6 h p) (deref6 h d) \<alpha> = Inr (deref6 h1 p')"
    by simp_all
  assume "same_shapes6 (deref6 h d) (deref6 h p)"
  from update_updated_spec [OF this, of \<alpha>] r
  show "deref6 h1 p' = updated_spec \<alpha> (deref6 h p) (deref6 h d)" by simp
next
  assume "compute_cost_3layer_h A3 y h = Inr (J, h2)"
  from compute_cost_h_returns [OF assms(7,4) this]
  show "unchanged h h2" "compute_cost_3layer (deref h A3) (deref h y) = Inr J" by simp_all
next
  assume "backward_propagation_3layer_h X y A1 A2 A3 W2 W3 h = Inr (g, h3)"
  from backward_h_returns [OF assms(3-9) this]
  show "unchanged h h3" "fresh6 h g" "valid6 h3 g"
    "backward_propagation_3layer (deref h X) (deref h y) (deref h A1) (deref h A2)
       (deref h A3) (deref h W2) (deref h W3) = Inr (deref6 h3 g)" by simp_all
next
  assume "update_parameters_3layer (deref6 h p) (deref6 h d) \<alpha> = Inr v"
  with update_h_refines [OF assms(1,2), of \<alpha>]
  show "\<exists>q k. update_parameters_3layer_h p d \<alpha> h = Inr (q, k)" by auto
next
  assume "compute_cost_3layer (deref h A3) (deref h y) = Inr c"
  with compute_cost_h_refines [OF assms(7,4)]
  show "\<exists>k. compute_cost_3layer_h A3 y h = Inr (c, k)" by auto
next
  assume "backward_propagation_3layer (deref h X) (deref h y) (deref h A1) (deref h A2)
               (deref h A3) (deref h W2) (deref h W3) = Inr w"
  with backward_h_refines [OF assms(3-9)]
  show "\<exists>q k. backward_propagation_3layer_h X y A1 A2 A3 W2 W3 h = Inr (q, k)" by auto
qed

theorem stages_leave_inputs_unchanged_witness:
  "\<exists>p' h1 J h2.
     update_parameters_3layer_h (0, 1, 0, 1, 0, 1) (2, 3, 2, 3, 2, 3) (1 / 2)
       [Floats \<lparr>shape0 = 1, shape1 = 1, rows = [[1]]\<rparr>, Floats \<lparr>shape0 = 1, shape1 = 1, rows = [[0]]\<rparr>,
        Floats \<lparr>shape0 = 1, shape1 = 1, rows = [[2]]\<rparr>, Floats \<lparr>shape0 = 1, shape1 = 1, rows = [[3]]\<rparr>,
        Floats \<lparr>shape0 = 1, shape1 = 1, rows = [[1 / 2]]\<rparr>] = Inr (p', h1)
   \<and> unchanged
       [Floats \<lparr>shape0 = 1, shape1 = 1, rows = [[1]]\<rparr>, Floats \<lparr>shape0 = 1, shape1 = 1, rows = [[0]]\<rparr>,
        Floats \<lparr>shape0 = 1, shape1 = 1, rows = [[2]]\<rparr>, Floats \<lparr>shape0 = 1, shape1 = 1, rows = [[3]]\<rparr>,
        Floats \<lparr>shape0 = 1, shape1 = 1, rows = [[1 / 2]]\<rparr>] h1
   \<and> fresh6 [Floats \<lparr>shape0 = 1, shape1 = 1, rows = [[1]]\<rparr>, Floats \<lparr>shape0 = 1, shape1 = 1, rows = [[0]]\<rparr>,
        Floats \<lparr>shape0 = 1, shape1 = 1, rows = [[2]]\<rparr>, Floats \<lparr>shape0 = 1, shape1 = 1, rows = [[3]]\<rparr>,
        Floats \<lparr>shape0 = 1, shape1 = 1, rows = [[1 / 2]]\<rparr>] p'
   \<and> deref6 h1 p' =
       (\<lparr>shape0 = 1, shape1 = 1, rows = [[0]]\<rparr>, \<lparr>shape0 = 1, shape1 = 1, rows = [[- 3 / 2]]\<rparr>,
        \<lparr>shape0 = 1, shape1 = 1, rows = [[0]]\<rparr>, \<lparr>shape0 = 1, shape1 = 1, rows = [[- 3 / 2]]\<rparr>,
        \<lparr>shape0 = 1, shape1 = 1, rows = [[0]]\<rparr>, \<lparr>shape0 = 1, shape1 = 1, rows = [[- 3 / 2]]\<rparr>)
   \<and> compute_cost_3layer_h 4 0
       [Floats \<lparr>shape0 = 1, shape1 = 1, rows = [[1]]\<rparr>, Floats \<lparr>shape0 = 1, shape1 = 1, rows = [[0]]\<rparr>,
        Floats \<lparr>shape0 = 1, shape1 = 1, rows = [[2]]\<rparr>, Floats \<lparr>shape0 = 1, shape1 = 1, rows = [[3]]\<rparr>,
        Floats \<lparr>shape0 = 1, shape1 = 1, rows = [[1 / 2]]\<rparr>] = Inr (J, h2)
   \<and> J = - ln (1 / 2)
   \<and> unchanged
       [Floats \<lparr>shape0 = 1, shape1 = 1, rows = [[1]]\<rparr>, Floats \<lparr>shape0 = 1, shape1 = 1, rows = [[0]]\<rparr>,
        Floats \<lparr>shape0 = 1, shape1 = 1, rows = [[2]]\<rparr>, Floats \<lparr>shape0 = 1, shape1 = 1, rows = [[3]]\<rparr>,
        Floats \<lparr>shape0 = 1, shape1 = 1, rows = [[1 / 2]]\<rparr>] h2"
proof -
  let ?H = "[Floats \<lparr>shape0 = 1, shape1 = 1, rows = [[1]]\<rparr>, Floats \<lparr>shape0 = 1, shape1 = 1, rows = [[0]]\<rparr>,
        Floats \<lparr>shape0 = 1, shape1 = 1, rows = [[2]]\<rparr>, Floats \<lparr>shape0 = 1, shape1 = 1, rows = [[3]]\<rparr>,
        Floats \<lparr>shape0 = 1, shape1 = 1, rows = [[1 / 2]]\<rparr>]"
  let ?p = "(0, 1, 0, 1, 0, 1) :: refs6"
  let ?d = "(2, 3, 2, 3, 2, 3) :: refs6"
  let ?v = "(\<lparr>shape0 = 1, shape1 = 1, rows = [[0::real]]\<rparr>, \<lparr>shape0 = 1, shape1 = 1, rows = [[- 3 / 2::real]]\<rparr>,
        \<lparr>shape0 = 1, shape1 = 1, rows = [[0::real]]\<rparr>, \<lparr>shape0 = 1, shape1 = 1, rows = [[- 3 / 2::real]]\<rparr>,
        \<lparr>shape0 = 1, shape1 = 1, rows = [[0::real]]\<rparr>, \<lparr>shape0 = 1, shape1 = 1, rows = [[- 3 / 2::real]]\<rparr>)"
  have v: "valid6 ?H ?p" "valid6 ?H ?d" "(0::nat) < length ?H" "(4::nat) < length ?H"
    by (simp_all add: valid6_def)
  have pu: "update_parameters_3layer (deref6 ?H ?p) (deref6 ?H ?d) (1 / 2) = Inr ?v"
    by (simp add: update_parameters_3layer_def deref6_def deref_def as_float_def code_eval)
  have pc: "compute_cost_3layer (deref ?H 4) (deref ?H 0) = Inr (- ln (1 / 2))"
    by (simp add: compute_cost_3layer_def deref_def as_float_def code_eval)
  note inst = stages_leave_inputs_unchanged [OF v(1,2) v(3,3,3,3,4,3,3), where \<alpha> = "1 / 2"]
  have "\<exists>q k. update_parameters_3layer_h ?p ?d (1 / 2) ?H = Inr (q, k)"
    by (rule mp [OF inst [THEN conjunct2, THEN conjunct2, THEN conjunct2, THEN conjunct1] pu])
  then obtain p' h1 where u: "update_parameters_3layer_h ?p ?d (1 / 2) ?H = Inr (p', h1)"
    by blast
  have "\<exists>k. compute_cost_3layer_h 4 0 ?H = Inr (- ln (1 / 2), k)"
    by (rule mp [OF inst [THEN conjunct2, THEN conjunct2, THEN conjunct2, THEN conjunct2,
            THEN conjunct1] pc])
  then obtain h2 where c: "compute_cost_3layer_h 4 0 ?H = Inr (- ln (1 / 2), h2)"
    by blast
  have ru: "unchanged ?H h1 \<and> fresh6 ?H p' \<and> valid6 h1 p'
      \<and> update_parameters_3layer (deref6 ?H ?p) (deref6 ?H ?d) (1 / 2) = Inr (deref6 h1 p')
      \<and> (same_shapes6 (deref6 ?H ?d) (deref6 ?H ?p) \<longrightarrow>
               deref6 h1 p' = updated_spec (1 / 2) (deref6 ?H ?p) (deref6 ?H ?d))"
    by (rule mp [OF inst [THEN conjunct1] u])
  have rc: "unchanged ?H h2 \<and> compute_cost_3layer (deref ?H 4) (deref ?H 0) = Inr (- ln (1 / 2))"
    by (rule mp [OF inst [THEN conjunct2, THEN conjunct1] c])
  have 1: "unchanged ?H h1" using ru by (rule conjunct1)
  have 2: "fresh6 ?H p'" using ru by blast
  have "Inr (deref6 h1 p') = (Inr ?v :: error + params)" using ru pu by (simp only:)
  then have 3: "deref6 h1 p' = ?v" by (simp only: sum.inject)
  have 4: "unchanged ?H h2" using rc by (rule conjunct1)
  from u c 1 2 3 4 show ?thesis by blast
qed

end
